theory Spec2Isabelle
  imports Complex_Main
begin

section \<open>Python values shared by the modules\<close>

text \<open>
  Exceptions raised by the Python sources become values: \<open>ValueError\<close> carries the
  message of the \<^verbatim>\<open>raise\<close> statement (or of the library call that raises),
  the others are the built-in exceptions of the same name.
\<close>

datatype py_error =
    ValueError string
  | IndexError
  | OverflowError
  | ZeroDivisionError

text \<open>Python's slice \<^verbatim>\<open>xs[a:b]\<close> for non-negative bounds: total, it never raises.\<close>

definition py_slice :: "'a list \<Rightarrow> nat \<Rightarrow> nat \<Rightarrow> 'a list" where
  "py_slice xs a b = take (b - a) (drop a xs)"

text \<open>Python's \<^verbatim>\<open>xs[i]\<close> for a non-negative index: IndexError out of range.\<close>

definition py_index :: "'a list \<Rightarrow> nat \<Rightarrow> py_error + 'a" where
  "py_index xs i = (if i < length xs then Inr (xs ! i) else Inl IndexError)"

section \<open>brain.py: the gene codec and the controller\<close>

text \<open>
  Coefficients and signals are Python floats, modelled as reals. Bits are Python ints.
  The model of the decoder is that of the code on genomes of binary values, the genomes
  of the data model: for bits 0 and 1 every value \<^verbatim>\<open>_binary_to_float\<close> computes is a
  dyadic rational with at most six significant bits, so the float arithmetic there is
  exact and raises nothing. For other ints the Python arithmetic can leave the floats
  (\<^verbatim>\<open>float * 2 ** exponent\<close> raises OverflowError once the exponent exceeds 1023,
  as for a bit of value 129); that is outside the model, and the theorems about the
  decoder and the brain assume binary values.
\<close>

definition binary_to_float :: "int list \<Rightarrow> py_error + real" where
  "binary_to_float bits =
     (if length bits \<noteq> 10 then Inl (ValueError ''Expected 10 bits'')
      else
        let sign = (if bits ! 0 \<noteq> 0 then - 1 else 1 :: real);
            exponent_bits = py_slice bits 1 5;
            exponent = (\<Sum>(i, bit) \<leftarrow> enumerate 0 (rev exponent_bits). bit * 2 ^ i);
            exponent = exponent - 7;
            mantissa_bits = drop 5 bits;
            mantissa = (\<Sum>(i, bit) \<leftarrow> enumerate 0 mantissa_bits.
                          real_of_int bit * 2 powi (- int (i + 1)));
            result = sign * (1 + mantissa) * 2 powi exponent
        in Inr (max (min result 100) (- 100)))"

text \<open>\<^verbatim>\<open>range(0, n, 10)\<close>\<close>

definition chunk_starts :: "nat \<Rightarrow> nat list" where
  "chunk_starts n = map (\<lambda>k. 10 * k) [0..<(n + 9) div 10]"

text \<open>
  The loop of \<^verbatim>\<open>_bits_to_coefficients\<close>: one chunk per start index, the decoded
  value appended to the accumulator, the first exception ending the loop.
\<close>

fun coefficient_loop :: "int list \<Rightarrow> nat list \<Rightarrow> real list \<Rightarrow> py_error + real list" where
  "coefficient_loop bits [] coefficients = Inr coefficients"
| "coefficient_loop bits (i # starts) coefficients =
     (case binary_to_float (py_slice bits i (i + 10)) of
        Inl e \<Rightarrow> Inl e
      | Inr v \<Rightarrow> coefficient_loop bits starts (coefficients @ [v]))"

definition bits_to_coefficients :: "int list \<Rightarrow> py_error + real list" where
  "bits_to_coefficients bits = coefficient_loop bits (chunk_starts (length bits)) []"

record brain =
  genome :: "int list"
  engine_coefficients :: "real list"
  wheel_coefficients :: "real list"

text \<open>\<^verbatim>\<open>Brain.__init__\<close>\<close>

definition brain_init :: "int list \<Rightarrow> py_error + brain" where
  "brain_init g =
     (if length g \<noteq> 180 then Inl (ValueError ''Genome must be 180 bits long'')
      else
        case bits_to_coefficients (take 90 g) of
          Inl e \<Rightarrow> Inl e
        | Inr ec \<Rightarrow>
            (case bits_to_coefficients (drop 90 g) of
               Inl e \<Rightarrow> Inl e
             | Inr wc \<Rightarrow>
                 Inr \<lparr>genome = g, engine_coefficients = ec, wheel_coefficients = wc\<rparr>))"

text \<open>
  \<^verbatim>\<open>math.exp\<close> raises OverflowError when the result exceeds the largest double,
  that is for arguments above \<open>ln (1.7976931348623157e308)\<close>, about \<open>709.78\<close>.
\<close>

definition exp_overflow_bound :: real where
  "exp_overflow_bound = 709.782712893384"

definition py_exp :: "real \<Rightarrow> py_error + real" where
  "py_exp x = (if x > exp_overflow_bound then Inl OverflowError else Inr (exp x))"

text \<open>
  \<^verbatim>\<open>_signal_to_action\<close>: the assignment to \<open>signal\<close> inside the \<^verbatim>\<open>try\<close> has
  happened when \<^verbatim>\<open>math.exp\<close> raises, so the handler tests the clamped signal.
\<close>

definition signal_to_action :: "real \<Rightarrow> int" where
  "signal_to_action signal0 =
     (let signal = max (min signal0 500) (- 500);
          normalized =
            (case py_exp (- signal) of
               Inr ex \<Rightarrow> 1 / (1 + ex)
             | Inl e \<Rightarrow> (if signal > 0 then 1 else 0))
      in if normalized < 0.33 then - 1
         else if normalized > 0.66 then 1
         else 0)"

record action =
  engine :: int
  wheels :: int

text \<open>
  \<^verbatim>\<open>make_decision\<close>. \<open>coefficients[:-1]\<close> is \<open>butlast\<close>, \<open>coefficients[-1]\<close> raises
  IndexError on an empty list. The method assigns no attribute of the brain and
  rebinds only its local \<open>sensors\<close>, so the model is a function of the brain and the
  sensor list with no state to return.
\<close>

definition py_last :: "'a list \<Rightarrow> py_error + 'a" where
  "py_last xs = (if xs = [] then Inl IndexError else Inr (last xs))"

definition weighted_signal :: "real list \<Rightarrow> real list \<Rightarrow> py_error + real" where
  "weighted_signal coefficients sensors =
     (let s = (\<Sum>(c, x) \<leftarrow> zip (butlast coefficients) sensors. c * x)
      in case py_last coefficients of
           Inl e \<Rightarrow> Inl e
         | Inr bias \<Rightarrow> Inr (s + bias))"

definition make_decision :: "brain \<Rightarrow> real list \<Rightarrow> py_error + action" where
  "make_decision b sensors0 =
     (if length sensors0 \<noteq> 8 then Inl (ValueError ''Expected 8 sensor values'')
      else
        let sensors = map (\<lambda>s. max (min s 100) 0) sensors0
        in case weighted_signal (engine_coefficients b) sensors of
             Inl e \<Rightarrow> Inl e
           | Inr engine_signal \<Rightarrow>
               (case weighted_signal (wheel_coefficients b) sensors of
                  Inl e \<Rightarrow> Inl e
                | Inr wheel_signal \<Rightarrow>
                    let engine_signal = max (min engine_signal 100) (- 100);
                        wheel_signal = max (min wheel_signal 100) (- 100)
                    in Inr \<lparr>engine = signal_to_action engine_signal,
                             wheels = signal_to_action wheel_signal\<rparr>))"

subsection \<open>The codec and the decision rule as the specification words them\<close>

text \<open>
  Bit 0 is the sign, bits 1 to 4 the exponent (unsigned, most significant bit first,
  bias 7), bits 5 to 9 the fraction added to an implicit leading one; the value is
  clamped to \<open>[-100, 100]\<close>.
\<close>

definition spec_sign :: "int list \<Rightarrow> real" where
  "spec_sign b = (if b ! 0 = 1 then - 1 else 1)"

definition spec_exponent :: "int list \<Rightarrow> int" where
  "spec_exponent b = 8 * b ! 1 + 4 * b ! 2 + 2 * b ! 3 + b ! 4"

definition spec_mantissa :: "int list \<Rightarrow> real" where
  "spec_mantissa b = (\<Sum>i = 0..<5. real_of_int (b ! (5 + i)) * 2 powi (- int (i + 1)))"

definition clamp :: "real \<Rightarrow> real \<Rightarrow> real \<Rightarrow> real" where
  "clamp x lo hi = (if x < lo then lo else if x > hi then hi else x)"

definition spec_decode :: "int list \<Rightarrow> real" where
  "spec_decode b =
     clamp (spec_sign b * (1 + spec_mantissa b) * 2 powi (spec_exponent b - 7)) (- 100) 100"

text \<open>
  The decision rule: sensors clamped to \<open>[0, 100]\<close>, the signal of a channel the sum of
  weight times sensor over the eight sensors plus the ninth coefficient as bias, clamped
  to \<open>[-100, 100]\<close>, squashed by the logistic function of the signal clamped to
  \<open>[-500, 500]\<close> (saturating to 1 for a positive signal and to 0 otherwise where the
  exponential overflows), and thresholded at 0.33 and 0.66.
\<close>

definition spec_signal :: "real list \<Rightarrow> real list \<Rightarrow> real" where
  "spec_signal ws sensors = (\<Sum>i = 0..<8. ws ! i * clamp (sensors ! i) 0 100) + ws ! 8"

definition spec_squash :: "real \<Rightarrow> real" where
  "spec_squash s =
     (let c = clamp s (- 500) 500
      in if isl (py_exp (- c)) then (if c > 0 then 1 else 0) else 1 / (1 + exp (- c)))"

definition spec_action :: "real \<Rightarrow> int" where
  "spec_action v = (if v < 0.33 then - 1 else if v > 0.66 then 1 else 0)"

definition spec_channel :: "real list \<Rightarrow> real list \<Rightarrow> int" where
  "spec_channel ws sensors =
     spec_action (spec_squash (clamp (spec_signal ws sensors) (- 100) 100))"

definition spec_decide :: "real list \<Rightarrow> real list \<Rightarrow> real list \<Rightarrow> action" where
  "spec_decide ec wc sensors =
     \<lparr>engine = spec_channel ec sensors, wheels = spec_channel wc sensors\<rparr>"

section \<open>environment.py: the simulation\<close>

subsection \<open>Floats that can be infinite\<close>

text \<open>
  The distance tracker starts at \<^verbatim>\<open>float('inf')\<close>, and rewards and the fitness are
  computed from it, so these values are floats with the two infinities and NaN. Finite
  floats are modelled as reals: the rounding of the float operations is not part of the
  model, the IEEE rules for the infinities and NaN are.
\<close>

datatype pyfloat = Fin real | PInf | NInf | NaN

fun fl_neg :: "pyfloat \<Rightarrow> pyfloat" where
  "fl_neg (Fin a) = Fin (- a)"
| "fl_neg PInf = NInf"
| "fl_neg NInf = PInf"
| "fl_neg NaN = NaN"

fun fl_add :: "pyfloat \<Rightarrow> pyfloat \<Rightarrow> pyfloat" where
  "fl_add (Fin a) (Fin b) = Fin (a + b)"
| "fl_add (Fin a) PInf = PInf"
| "fl_add (Fin a) NInf = NInf"
| "fl_add PInf (Fin b) = PInf"
| "fl_add PInf PInf = PInf"
| "fl_add PInf NInf = NaN"
| "fl_add NInf (Fin b) = NInf"
| "fl_add NInf NInf = NInf"
| "fl_add NInf PInf = NaN"
| "fl_add NaN y = NaN"
| "fl_add x NaN = NaN"

definition fl_sub :: "pyfloat \<Rightarrow> pyfloat \<Rightarrow> pyfloat" where
  "fl_sub x y = fl_add x (fl_neg y)"

text \<open>An infinity times a finite float: NaN for zero, else the product of the signs.\<close>

definition inf_times :: "bool \<Rightarrow> real \<Rightarrow> pyfloat" where
  "inf_times positive b =
     (if b = 0 then NaN else if (0 < b) = positive then PInf else NInf)"

fun fl_mul :: "pyfloat \<Rightarrow> pyfloat \<Rightarrow> pyfloat" where
  "fl_mul (Fin a) (Fin b) = Fin (a * b)"
| "fl_mul (Fin a) PInf = inf_times True a"
| "fl_mul (Fin a) NInf = inf_times False a"
| "fl_mul PInf (Fin b) = inf_times True b"
| "fl_mul NInf (Fin b) = inf_times False b"
| "fl_mul PInf PInf = PInf"
| "fl_mul PInf NInf = NInf"
| "fl_mul NInf PInf = NInf"
| "fl_mul NInf NInf = PInf"
| "fl_mul NaN y = NaN"
| "fl_mul x NaN = NaN"

text \<open>\<^verbatim>\<open>x < y\<close> on floats: false whenever a NaN is compared.\<close>

fun fl_less :: "pyfloat \<Rightarrow> pyfloat \<Rightarrow> bool" where
  "fl_less (Fin a) (Fin b) = (a < b)"
| "fl_less (Fin a) PInf = True"
| "fl_less NInf (Fin b) = True"
| "fl_less NInf PInf = True"
| "fl_less x y = False"

subsection \<open>pygame rectangles\<close>

text \<open>
  \<^verbatim>\<open>pygame.Rect\<close> holds four ints. Its derived attributes and its overlap test are
  those of the library: \<open>right = x + w\<close>, \<open>bottom = y + h\<close>, the centre at half the
  size (C division, which truncates), a rectangle of zero width or height is false as
  a condition and collides with nothing. The attributes are prefixed with \<open>r_\<close>.
\<close>

record rect =
  rx :: int
  ry :: int
  rw :: int
  rh :: int

definition Rect :: "int \<Rightarrow> int \<Rightarrow> int \<Rightarrow> int \<Rightarrow> rect" where
  "Rect x y w h = \<lparr>rx = x, ry = y, rw = w, rh = h\<rparr>"

definition c_half :: "int \<Rightarrow> int" where
  "c_half w = (if 0 \<le> w then w div 2 else - ((- w) div 2))"

definition r_left :: "rect \<Rightarrow> int" where "r_left r = rx r"
definition r_top :: "rect \<Rightarrow> int" where "r_top r = ry r"
definition r_right :: "rect \<Rightarrow> int" where "r_right r = rx r + rw r"
definition r_bottom :: "rect \<Rightarrow> int" where "r_bottom r = ry r + rh r"

definition r_center :: "rect \<Rightarrow> int \<times> int" where
  "r_center r = (rx r + c_half (rw r), ry r + c_half (rh r))"

text \<open>Assigning \<open>centerx\<close>, \<open>centery\<close> or \<open>center\<close> moves the rectangle, keeping its size.\<close>

definition set_centerx :: "rect \<Rightarrow> int \<Rightarrow> rect" where
  "set_centerx r cx = r\<lparr>rx := cx - c_half (rw r)\<rparr>"

definition set_centery :: "rect \<Rightarrow> int \<Rightarrow> rect" where
  "set_centery r cy = r\<lparr>ry := cy - c_half (rh r)\<rparr>"

definition rect_truthy :: "rect \<Rightarrow> bool" where
  "rect_truthy r \<longleftrightarrow> rw r \<noteq> 0 \<and> rh r \<noteq> 0"

definition colliderect :: "rect \<Rightarrow> rect \<Rightarrow> bool" where
  "colliderect a b \<longleftrightarrow>
     \<not> (rw a = 0 \<or> rh a = 0 \<or> rw b = 0 \<or> rh b = 0)
     \<and> min (rx a) (rx a + rw a) < max (rx b) (rx b + rw b)
     \<and> min (ry a) (ry a + rh a) < max (ry b) (ry b + rh b)
     \<and> max (rx a) (rx a + rw a) > min (rx b) (rx b + rw b)
     \<and> max (ry a) (ry a + rh a) > min (ry b) (ry b + rh b)"

text \<open>
  A surface enters the simulation only through the size of its rotated copy:
  \<^verbatim>\<open>pygame.transform.rotate(surf, angle).get_rect(center=c)\<close> is the rectangle of that
  size centred at the given point. The surface of the car is therefore represented by the
  function from the angle (in degrees) to the size of the rotated copy.
\<close>

type_synonym surface = "int \<Rightarrow> int \<times> int"

definition get_rect_center :: "int \<times> int \<Rightarrow> int \<times> int \<Rightarrow> rect" where
  "get_rect_center sz c =
     set_centery (set_centerx (Rect 0 0 (fst sz) (snd sz)) (fst c)) (snd c)"

subsection \<open>Constants of \<^verbatim>\<open>Environment.__init__\<close>\<close>

definition WIDTH :: int where "WIDTH = 800"
definition HEIGHT :: int where "HEIGHT = 600"
definition CAR_SIZE :: int where "CAR_SIZE = 50 div 5"
definition MAX_SPEED :: real where "MAX_SPEED = 5 / 2"
definition MAX_SPEED_BACKWARD :: real where "MAX_SPEED_BACKWARD = MAX_SPEED / 2"
definition ACCELERATION :: real where "ACCELERATION = 0.05 / 2"
definition DECELERATION :: real where "DECELERATION = 0.05 / 2"
definition MIN_TURN_SPEED :: real where "MIN_TURN_SPEED = 0.1"
definition max_episode_steps :: int where "max_episode_steps = 1000"

text \<open>Python's \<^verbatim>\<open>int(x)\<close> on a float truncates towards zero.\<close>

definition py_int :: "real \<Rightarrow> int" where
  "py_int x = (if 0 \<le> x then \<lfloor>x\<rfloor> else \<lceil>x\<rceil>)"

definition parking_spot :: rect where
  "parking_spot = Rect 600 200 (py_int (real_of_int (150 div 3 * 2) / 1.5))
                               (py_int (real_of_int (100 div 3 * 2) / 1.5))"

definition barrier_thickness :: int where
  "barrier_thickness = py_int (real_of_int (10 div 3 * 2) / 1.5)"

definition create_barriers :: "rect list" where
  "create_barriers =
     [Rect 0 0 WIDTH barrier_thickness,
      Rect 0 0 barrier_thickness HEIGHT,
      Rect 0 (HEIGHT - barrier_thickness) WIDTH barrier_thickness,
      Rect (WIDTH - barrier_thickness) 0 barrier_thickness HEIGHT]"

definition barriers :: "rect list" where
  "barriers = create_barriers"

subsection \<open>State\<close>

record car_state =
  car_pos_x :: real
  car_pos_y :: real
  car_speed :: real
  rotation :: int
  collision_counter :: int
  time_elapsed :: int

definition initial_state :: car_state where
  "initial_state =
     \<lparr>car_pos_x = 100, car_pos_y = 300, car_speed = 0, rotation = 0,
      collision_counter = 0, time_elapsed = 0\<rparr>"

text \<open>
  The attributes an \<^verbatim>\<open>Environment\<close> object mutates. \<open>rotated_collision_rect\<close> is
  \<open>None\<close> until the first position update; \<open>distance_to_parking\<close> does not exist
  before the first distance update (\<open>None\<close> here).
\<close>

record env =
  rectangle_surf :: surface
  car_rect :: rect
  rotated_collision_rect :: "rect option"
  custom_rectangles :: "rect list"
  current_state :: car_state
  episode_finished :: bool
  current_step :: int
  best_distance :: pyfloat
  current_fitness :: pyfloat
  ray_distances :: "int list"
  average_distance :: pyfloat
  distance_to_parking :: "real option"

text \<open>The dictionary \<^verbatim>\<open>get_state\<close> returns.\<close>

record observation =
  obs_sensors :: "int list"
  obs_distance_to_parking :: pyfloat
  obs_collision :: bool
  obs_position :: "real \<times> real"
  obs_rotation :: int
  obs_speed :: real

text \<open>The auxiliary dictionary of a step; the code only ever returns the empty one.\<close>

type_synonym info = "(string \<times> string) list"

subsection \<open>Sensors and distances\<close>

definition radians :: "real \<Rightarrow> real" where
  "radians a = a * pi / 180"

definition point_inside_rect :: "real \<times> real \<Rightarrow> rect \<Rightarrow> bool" where
  "point_inside_rect point r \<longleftrightarrow>
     (let (x, y) = point
      in real_of_int (r_left r) \<le> x \<and> x \<le> real_of_int (r_right r)
         \<and> real_of_int (r_top r) \<le> y \<and> y \<le> real_of_int (r_bottom r))"

text \<open>
  The loop of \<^verbatim>\<open>_ray_distance\<close>: \<open>n\<close> iterations remain, \<open>i\<close> is the loop index and
  \<open>(x, y)\<close> the point reached so far.
\<close>

fun ray_loop :: "real \<Rightarrow> real \<Rightarrow> rect list \<Rightarrow> nat \<Rightarrow> int \<Rightarrow> real \<Rightarrow> real \<Rightarrow> int \<Rightarrow> int" where
  "ray_loop dx dy bs 0 i x0 y0 max_distance = max_distance"
| "ray_loop dx dy bs (Suc n) i x0 y0 max_distance =
     (let x = x0 + dx; y = y0 + dy
      in if list_ex (point_inside_rect (x, y)) bs then i
         else if x < 0 \<or> x > real_of_int WIDTH \<or> y < 0 \<or> y > real_of_int HEIGHT then i
         else ray_loop dx dy bs n (i + 1) x y max_distance)"

definition ray_distance :: "real \<times> real \<Rightarrow> int \<Rightarrow> rect list \<Rightarrow> int \<Rightarrow> int" where
  "ray_distance start_point angle bs max_distance =
     (let (x, y) = start_point;
          dx = cos (radians (real_of_int angle));
          dy = sin (radians (real_of_int angle))
      in ray_loop dx dy bs (nat max_distance) 0 x y max_distance)"

definition distance :: "int \<times> int \<Rightarrow> int \<times> int \<Rightarrow> real" where
  "distance point1 point2 =
     sqrt (real_of_int ((fst point1 - fst point2) ^ 2 + (snd point1 - snd point2) ^ 2))"

definition nearest_point_on_rect :: "rect \<Rightarrow> int \<times> int \<Rightarrow> int \<times> int" where
  "nearest_point_on_rect r point =
     (let (x, y) = point
      in (max (r_left r) (min x (r_right r)), max (r_top r) (min y (r_bottom r))))"

definition update_parking_distance :: "env \<Rightarrow> env" where
  "update_parking_distance e =
     (case rotated_collision_rect e of
        None \<Rightarrow> e
      | Some r \<Rightarrow>
          let rect_center = r_center r;
              nearest_point = nearest_point_on_rect parking_spot rect_center;
              corners = [(r_left r, r_top r), (r_right r, r_top r),
                         (r_right r, r_bottom r), (r_left r, r_bottom r)];
              corner_distances =
                map (\<lambda>corner. distance corner (nearest_point_on_rect parking_spot corner)) corners
          in e\<lparr>distance_to_parking := Some (distance rect_center nearest_point),
                average_distance :=
                  Fin (sum_list corner_distances / real (length corner_distances))\<rparr>)"

text \<open>The distances are ints already, so \<^verbatim>\<open>round(dist)\<close> returns them unchanged.\<close>

definition update_sensors :: "env \<Rightarrow> env" where
  "update_sensors e =
     (let ray_angles = [0, 45, 90, 135, 180, 225, 270, 315];
          start_point = (car_pos_x (current_state e), car_pos_y (current_state e));
          dists = map (\<lambda>angle.
                    let adjusted_angle = angle + rotation (current_state e)
                    in ray_distance start_point adjusted_angle
                         (barriers @ custom_rectangles e) 150) ray_angles
      in update_parking_distance (e\<lparr>ray_distances := dists\<rparr>))"

definition get_state :: "env \<Rightarrow> observation" where
  "get_state e =
     \<lparr>obs_sensors = ray_distances e,
      obs_distance_to_parking = average_distance e,
      obs_collision = (collision_counter (current_state e) > 0),
      obs_position = (car_pos_x (current_state e), car_pos_y (current_state e)),
      obs_rotation = rotation (current_state e),
      obs_speed = car_speed (current_state e)\<rparr>"

subsection \<open>Movement and collisions\<close>

text \<open>
  \<^verbatim>\<open>_check_collisions\<close> reads \<open>self.rotated_collision_rect\<close>, which its only caller
  has just assigned; the model passes that rectangle. Each of the two loops stops at the
  first hit, and the counter is incremented once however many tests hit.
\<close>

definition outside_arena :: "rect \<Rightarrow> bool" where
  "outside_arena r \<longleftrightarrow> r_left r < 0 \<or> r_right r > WIDTH \<or> r_top r < 0 \<or> r_bottom r > HEIGHT"

definition check_collisions :: "env \<Rightarrow> rect \<Rightarrow> env \<times> bool" where
  "check_collisions e r =
     (let cs0 = current_state e;
          hit_barrier = list_ex (colliderect r) barriers;
          cs1 = (if hit_barrier then cs0\<lparr>car_speed := 0\<rparr> else cs0);
          hit_custom = list_ex (colliderect r) (custom_rectangles e);
          cs2 = (if hit_custom then cs1\<lparr>car_speed := 0\<rparr> else cs1);
          hit_edge = outside_arena r;
          cs3 = (if hit_edge then cs2\<lparr>car_speed := 0\<rparr> else cs2);
          collision_detected = (hit_barrier \<or> hit_custom \<or> hit_edge);
          cs4 = (if collision_detected
                 then cs3\<lparr>collision_counter := collision_counter cs3 + 1\<rparr> else cs3)
      in (e\<lparr>current_state := cs4\<rparr>, collision_detected))"

text \<open>The candidate position and the collision rectangle placed there.\<close>

definition new_car_pos :: "env \<Rightarrow> real \<times> real" where
  "new_car_pos e =
     (let cs = current_state e
      in (car_pos_x cs + car_speed cs * cos (radians (real_of_int (rotation cs))),
          car_pos_y cs + car_speed cs * sin (radians (real_of_int (rotation cs)))))"

definition moved_car_rect :: "env \<Rightarrow> rect" where
  "moved_car_rect e =
     set_centery (set_centerx (car_rect e) (py_int (fst (new_car_pos e))))
       (py_int (snd (new_car_pos e)))"

definition candidate_rect :: "env \<Rightarrow> rect" where
  "candidate_rect e =
     get_rect_center (rectangle_surf e (- rotation (current_state e)))
       (r_center (moved_car_rect e))"

definition update_position :: "env \<Rightarrow> env" where
  "update_position e =
     (let (new_car_pos_x, new_car_pos_y) = new_car_pos e;
          r = candidate_rect e;
          e1 = e\<lparr>car_rect := moved_car_rect e, rotated_collision_rect := Some r\<rparr>;
          (e2, collision_detected) = check_collisions e1 r
      in if \<not> collision_detected \<and> car_speed (current_state e2) \<noteq> 0
         then e2\<lparr>current_state :=
                  (current_state e2)\<lparr>car_pos_x := new_car_pos_x, car_pos_y := new_car_pos_y\<rparr>\<rparr>
         else e2)"

text \<open>
  \<^verbatim>\<open>_apply_action\<close> first updates the speed and the heading from the two signals
  (\<open>after_controls\<close>), then calls \<^verbatim>\<open>_update_position\<close>.
\<close>

definition after_controls :: "env \<Rightarrow> action \<Rightarrow> env" where
  "after_controls e a =
     (let engine_signal = engine a;
          wheel_signal = wheels a;
          cs = current_state e;
          cs1 = (if engine_signal = 1
                 then cs\<lparr>car_speed := min (car_speed cs + ACCELERATION) MAX_SPEED\<rparr>
                 else if engine_signal = - 1
                 then cs\<lparr>car_speed := max (car_speed cs - DECELERATION) (- MAX_SPEED_BACKWARD)\<rparr>
                 else cs);
          cs2 = (if \<bar>car_speed cs1\<bar> \<ge> MIN_TURN_SPEED
                 then cs1\<lparr>rotation := (rotation cs1 + wheel_signal) mod 360\<rparr>
                 else cs1)
      in e\<lparr>current_state := cs2\<rparr>)"

definition apply_action :: "env \<Rightarrow> action \<Rightarrow> env" where
  "apply_action e a = update_position (after_controls e a)"

subsection \<open>Reward, parking and the step\<close>

definition is_parked_correctly :: "env \<Rightarrow> bool" where
  "is_parked_correctly e =
     (case rotated_collision_rect e of
        None \<Rightarrow> False
      | Some r \<Rightarrow>
          if \<not> rect_truthy r then False
          else if colliderect parking_spot r then
            (if r_left r \<ge> r_left parking_spot \<and> r_right r \<le> r_right parking_spot
                \<and> r_top r \<ge> r_top parking_spot \<and> r_bottom r \<le> r_bottom parking_spot
             then
               (let angle_threshold = 10;
                    target_angle = 0;
                    current_angle = rotation (current_state e) mod 360;
                    angle_diff = min \<bar>current_angle - target_angle\<bar>
                                     \<bar>current_angle - (target_angle + 360)\<bar>
                in angle_diff \<le> angle_threshold)
             else False)
          else False)"

definition calculate_reward :: "env \<Rightarrow> observation \<Rightarrow> env \<times> pyfloat" where
  "calculate_reward e state =
     (let reward = Fin 0;
          reward = (if obs_collision state then fl_sub reward (Fin 100) else reward);
          current_distance = obs_distance_to_parking state;
          improved = fl_less current_distance (best_distance e);
          reward = (if improved
                    then fl_add reward (fl_mul (fl_sub (best_distance e) current_distance) (Fin 10))
                    else reward);
          e1 = (if improved then e\<lparr>best_distance := current_distance\<rparr> else e);
          reward = (if is_parked_correctly e1 then fl_add reward (Fin 1000) else reward);
          reward = fl_sub reward (Fin 0.1)
      in (e1\<lparr>current_fitness := fl_add (current_fitness e1) reward\<rparr>, reward))"

definition check_episode_end :: "env \<Rightarrow> observation \<Rightarrow> env \<times> bool" where
  "check_episode_end e state =
     (if obs_collision state \<or> current_step e \<ge> max_episode_steps \<or> is_parked_correctly e
      then (e\<lparr>episode_finished := True\<rparr>, True)
      else (e, False))"

definition step :: "env \<Rightarrow> action \<Rightarrow> env \<times> observation \<times> pyfloat \<times> bool \<times> info" where
  "step e a =
     (if episode_finished e then (e, get_state e, Fin 0, True, [])
      else
        let e1 = apply_action e a;
            e2 = e1\<lparr>current_step := current_step e1 + 1\<rparr>;
            e3 = update_sensors e2;
            new_state = get_state e3;
            (e4, reward) = calculate_reward e3 new_state;
            (e5, done) = check_episode_end e4 new_state
        in (e5, new_state, reward, done, []))"

definition reset :: "env \<Rightarrow> env \<times> observation" where
  "reset e =
     (let e1 = e\<lparr>current_state := initial_state, episode_finished := False,
                 current_step := 0, best_distance := PInf, current_fitness := Fin 0\<rparr>;
          e2 = update_sensors e1
      in (e2, get_state e2))"

text \<open>\<^verbatim>\<open>Environment.__init__\<close>, given the (rotated) surface of the car.\<close>

definition env_init :: "surface \<Rightarrow> env" where
  "env_init surf =
     \<lparr>rectangle_surf = surf,
      car_rect = Rect 0 0 CAR_SIZE CAR_SIZE,
      rotated_collision_rect = None,
      custom_rectangles = [],
      current_state = initial_state,
      episode_finished = False,
      current_step = 0,
      best_distance = PInf,
      current_fitness = Fin 0,
      ray_distances = replicate 8 0,
      average_distance = PInf,
      distance_to_parking = None\<rparr>"

section \<open>train.py: the evaluation of a genome\<close>

text \<open>
  \<^verbatim>\<open>Trainer.evaluate_genome\<close> without visualisation: at most \<open>max_steps\<close> iterations,
  each one leaving the loop when the last observation reports a collision or the episode
  has finished, else asking the brain for an action and adding the reward of the step.
\<close>

fun evaluate_loop :: "nat \<Rightarrow> brain \<Rightarrow> env \<Rightarrow> observation \<Rightarrow> pyfloat \<Rightarrow> py_error + env \<times> pyfloat" where
  "evaluate_loop 0 b e state total_reward = Inr (e, total_reward)"
| "evaluate_loop (Suc n) b e state total_reward =
     (if obs_collision state \<or> episode_finished e then Inr (e, total_reward)
      else
        case make_decision b (map real_of_int (obs_sensors state)) of
          Inl err \<Rightarrow> Inl err
        | Inr a \<Rightarrow>
            (let (e', next_state, reward, done, aux) = step e a
             in evaluate_loop n b e' next_state (fl_add total_reward reward)))"

definition evaluate_genome :: "env \<Rightarrow> int list \<Rightarrow> py_error + env \<times> pyfloat" where
  "evaluate_genome e g =
     (case brain_init g of
        Inl err \<Rightarrow> Inl err
      | Inr b \<Rightarrow>
          (let total_reward = Fin 0;
               max_steps = 1000;
               (e0, state) = reset e
           in case evaluate_loop max_steps b e0 state total_reward of
                Inl err \<Rightarrow> Inl err
              | Inr (e1, tot) \<Rightarrow> Inr (fst (reset e1), tot)))"

section \<open>genetic_algorithm.py: the evolution engine\<close>

subsection \<open>The random module\<close>

text \<open>
  The generator is a stream of raw draws, consumed from the front. From a raw draw,
  \<^verbatim>\<open>random.random()\<close> is a multiple of \<open>2\<^sup>-\<^sup>5\<^sup>3\<close> in \<open>[0, 1)\<close> and an index below \<open>n\<close> is
  the draw modulo \<open>n\<close>. \<^verbatim>\<open>random.sample(xs, k)\<close> raises ValueError when \<open>k\<close> exceeds the
  length of \<open>xs\<close> and otherwise picks \<open>k\<close> times an element of what is left of \<open>xs\<close>:
  the result is an ordered selection of \<open>k\<close> distinct positions.
\<close>

type_synonym rng = "nat \<Rightarrow> nat"

definition rng_next :: "rng \<Rightarrow> nat \<times> rng" where
  "rng_next g = (g 0, \<lambda>i. g (Suc i))"

definition randbelow :: "nat \<Rightarrow> rng \<Rightarrow> nat \<times> rng" where
  "randbelow n g = (let (r, g') = rng_next g in (r mod n, g'))"

definition random_random :: "rng \<Rightarrow> real \<times> rng" where
  "random_random g = (let (r, g') = rng_next g in (real (r mod 2 ^ 53) / 2 ^ 53, g'))"

definition randint01 :: "rng \<Rightarrow> int \<times> rng" where
  "randint01 g = (let (r, g') = randbelow 2 g in (int r, g'))"

definition remove_nth :: "nat \<Rightarrow> 'a list \<Rightarrow> 'a list" where
  "remove_nth j xs = take j xs @ drop (Suc j) xs"

fun sample_loop :: "'a list \<Rightarrow> nat \<Rightarrow> rng \<Rightarrow> 'a list \<times> rng" where
  "sample_loop pool 0 g = ([], g)"
| "sample_loop pool (Suc k) g =
     (let (j, g1) = randbelow (length pool) g;
          (rest, g2) = sample_loop (remove_nth j pool) k g1
      in (pool ! j # rest, g2))"

definition random_sample :: "'a list \<Rightarrow> nat \<Rightarrow> rng \<Rightarrow> py_error + 'a list \<times> rng" where
  "random_sample xs k g =
     (if k > length xs then Inl (ValueError ''Sample larger than population or is negative'')
      else Inr (sample_loop xs k g))"

subsection \<open>Built-ins on lists of floats\<close>

text \<open>
  Fitness scores are modelled as reals. \<^verbatim>\<open>min\<close> and \<^verbatim>\<open>max\<close> raise ValueError on an
  empty list; \<^verbatim>\<open>max\<close> with a key returns the first element of maximal key; float
  division raises ZeroDivisionError on a zero divisor.
\<close>

definition py_min :: "real list \<Rightarrow> py_error + real" where
  "py_min xs = (case xs of [] \<Rightarrow> Inl (ValueError ''min() arg is an empty sequence'')
                | x # rest \<Rightarrow> Inr (fold min rest x))"

definition py_max :: "real list \<Rightarrow> py_error + real" where
  "py_max xs = (case xs of [] \<Rightarrow> Inl (ValueError ''max() arg is an empty sequence'')
                | x # rest \<Rightarrow> Inr (fold max rest x))"

definition py_max_key :: "('a \<Rightarrow> real) \<Rightarrow> 'a list \<Rightarrow> py_error + 'a" where
  "py_max_key key xs =
     (case xs of [] \<Rightarrow> Inl (ValueError ''max() arg is an empty sequence'')
      | x # rest \<Rightarrow> Inr (fold (\<lambda>y best. if key y > key best then y else best) rest x))"

definition py_div :: "real \<Rightarrow> real \<Rightarrow> py_error + real" where
  "py_div a b = (if b = 0 then Inl ZeroDivisionError else Inr (a / b))"

text \<open>A list comprehension whose element expression may raise: the first error wins.\<close>

fun map_result :: "('a \<Rightarrow> py_error + 'b) \<Rightarrow> 'a list \<Rightarrow> py_error + 'b list" where
  "map_result f [] = Inr []"
| "map_result f (x # xs) =
     (case f x of
        Inl e \<Rightarrow> Inl e
      | Inr y \<Rightarrow> (case map_result f xs of Inl e \<Rightarrow> Inl e | Inr ys \<Rightarrow> Inr (y # ys)))"

subsection \<open>The engine\<close>

text \<open>
  The sizes given to the constructor are counts and are modelled as naturals; genomes
  are lists of Python ints.
\<close>

record ga =
  population_size :: nat
  genome_length :: nat
  mutation_rate :: real
  elite_size :: nat
  tournament_size :: nat
  population :: "int list list"
  generation :: int
  best_fitness :: pyfloat
  best_genome :: "int list option"

fun random_bits :: "nat \<Rightarrow> rng \<Rightarrow> int list \<times> rng" where
  "random_bits 0 g = ([], g)"
| "random_bits (Suc n) g =
     (let (b, g1) = randint01 g; (bs, g2) = random_bits n g1 in (b # bs, g2))"

fun initialize_population :: "nat \<Rightarrow> nat \<Rightarrow> rng \<Rightarrow> int list list \<times> rng" where
  "initialize_population 0 len g = ([], g)"
| "initialize_population (Suc n) len g =
     (let (bits, g1) = random_bits len g; (rest, g2) = initialize_population n len g1
      in (bits # rest, g2))"

text \<open>\<^verbatim>\<open>GeneticAlgorithm.__init__\<close>\<close>

definition ga_init :: "nat \<Rightarrow> nat \<Rightarrow> real \<Rightarrow> nat \<Rightarrow> nat \<Rightarrow> rng \<Rightarrow> ga \<times> rng" where
  "ga_init psize glen mrate esize tsize g =
     (let (pop, g') = initialize_population psize glen g
      in (\<lparr>population_size = psize, genome_length = glen, mutation_rate = mrate,
           elite_size = esize, tournament_size = tsize, population = pop,
           generation = 0, best_fitness = NInf, best_genome = None\<rparr>, g'))"

text \<open>\<^verbatim>\<open>_select_parent\<close>\<close>

definition select_parent :: "ga \<Rightarrow> real list \<Rightarrow> rng \<Rightarrow> py_error + int list \<times> rng" where
  "select_parent s fitness_scores g =
     (case random_sample (enumerate 0 fitness_scores) (tournament_size s) g of
        Inl e \<Rightarrow> Inl e
      | Inr (tournament, g') \<Rightarrow>
          (case py_max_key snd tournament of
             Inl e \<Rightarrow> Inl e
           | Inr winner \<Rightarrow>
               (case py_index (population s) (fst winner) of
                  Inl e \<Rightarrow> Inl e
                | Inr parent \<Rightarrow> Inr (parent, g'))))"

text \<open>\<^verbatim>\<open>_crossover\<close>: two distinct points, sorted, and the two splices.\<close>

definition crossover :: "int list \<Rightarrow> int list \<Rightarrow> rng \<Rightarrow> py_error + (int list \<times> int list) \<times> rng" where
  "crossover parent1 parent2 g =
     (if length parent1 \<noteq> length parent2 then Inl (ValueError ''Parents must have same length'')
      else
        case random_sample [0..<length parent1] 2 g of
          Inl e \<Rightarrow> Inl e
        | Inr (points, g') \<Rightarrow>
            (let point1 = min (points ! 0) (points ! 1);
                 point2 = max (points ! 0) (points ! 1);
                 child1 = py_slice parent1 0 point1 @ py_slice parent2 point1 point2
                            @ drop point2 parent1;
                 child2 = py_slice parent2 0 point1 @ py_slice parent1 point1 point2
                            @ drop point2 parent2
             in Inr ((child1, child2), g')))"

text \<open>
  \<^verbatim>\<open>_mutate\<close>: for every position a draw against the mutation rate; on a flip, a draw
  against 0.3 for each neighbour that exists (\<^verbatim>\<open>and\<close> does not draw when the neighbour
  does not exist).
\<close>

definition flip :: "int list \<Rightarrow> nat \<Rightarrow> int list" where
  "flip m i = m[i := 1 - m ! i]"

definition flip_neighbour :: "bool \<Rightarrow> nat \<Rightarrow> int list \<Rightarrow> rng \<Rightarrow> int list \<times> rng" where
  "flip_neighbour exists j m g =
     (if exists
      then (let (r, g') = random_random g in (if r < 0.3 then flip m j else m, g'))
      else (m, g))"

fun mutate_loop :: "real \<Rightarrow> nat list \<Rightarrow> int list \<Rightarrow> rng \<Rightarrow> int list \<times> rng" where
  "mutate_loop rate [] m g = (m, g)"
| "mutate_loop rate (i # rest) m g =
     (let (r, g1) = random_random g
      in if r < rate
         then (let m1 = flip m i;
                   (m2, g2) = flip_neighbour (i > 0) (i - 1) m1 g1;
                   (m3, g3) = flip_neighbour (int i < int (length m2) - 1) (i + 1) m2 g2
               in mutate_loop rate rest m3 g3)
         else mutate_loop rate rest m g1)"

definition mutate :: "ga \<Rightarrow> int list \<Rightarrow> rng \<Rightarrow> int list \<times> rng" where
  "mutate s genome0 g = mutate_loop (mutation_rate s) [0..<length genome0] genome0 g"

text \<open>
  The normalisation of \<^verbatim>\<open>evolve\<close>, and the indices of the elite:
  \<^verbatim>\<open>sorted(..., reverse=True)\<close> is a stable sort by descending key, that is a stable
  sort by the negated fitness.
\<close>

definition normalize_fitness :: "real list \<Rightarrow> py_error + real list" where
  "normalize_fitness fitness_scores =
     (case py_min fitness_scores of
        Inl e \<Rightarrow> Inl e
      | Inr min_fitness \<Rightarrow>
          (case py_max fitness_scores of
             Inl e \<Rightarrow> Inl e
           | Inr max_fitness \<Rightarrow>
               if max_fitness \<noteq> min_fitness
               then map_result (\<lambda>f. py_div (f - min_fitness) (max_fitness - min_fitness))
                      fitness_scores
               else (case py_div 1 (real (length fitness_scores)) of
                       Inl e \<Rightarrow> Inl e
                     | Inr share \<Rightarrow> Inr (replicate (length fitness_scores) share))))"

definition elite_indices :: "ga \<Rightarrow> real list \<Rightarrow> nat list" where
  "elite_indices s fitness_scores =
     take (elite_size s)
       (sort_key (\<lambda>i. - (fitness_scores ! i)) [0..<length fitness_scores])"

text \<open>The \<^verbatim>\<open>while\<close> loop of \<^verbatim>\<open>evolve\<close>; every iteration appends at least one child.\<close>

function fill_population ::
  "ga \<Rightarrow> real list \<Rightarrow> int list list \<Rightarrow> rng \<Rightarrow> py_error + int list list \<times> rng" where
  "fill_population s normalized_fitness new_population g =
     (if length new_population < population_size s then
        case select_parent s normalized_fitness g of
          Inl e \<Rightarrow> Inl e
        | Inr (parent1, g1) \<Rightarrow>
            (case select_parent s normalized_fitness g1 of
               Inl e \<Rightarrow> Inl e
             | Inr (parent2, g2) \<Rightarrow>
                 (case crossover parent1 parent2 g2 of
                    Inl e \<Rightarrow> Inl e
                  | Inr ((child1, child2), g3) \<Rightarrow>
                      (let (child1', g4) = mutate s child1 g3;
                           new_population1 =
                             (if length new_population < population_size s
                              then new_population @ [child1'] else new_population)
                       in if length new_population1 < population_size s
                          then (let (child2', g5) = mutate s child2 g4
                                in fill_population s normalized_fitness
                                     (new_population1 @ [child2']) g5)
                          else fill_population s normalized_fitness new_population1 g4)))
      else Inr (new_population, g))"
  by pat_completeness auto
termination
  by (relation "measure (\<lambda>(s, nf, new_population, g). population_size s - length new_population)")
    (auto split: if_splits)

text \<open>
  \<^verbatim>\<open>evolve\<close> returns the new population and the generation number; the model returns
  the updated engine and generator with them.
\<close>

definition evolve ::
  "ga \<Rightarrow> real list \<Rightarrow> rng \<Rightarrow> py_error + ga \<times> int list list \<times> int \<times> rng" where
  "evolve s fitness_scores g =
     (case normalize_fitness fitness_scores of
        Inl e \<Rightarrow> Inl e
      | Inr normalized_fitness \<Rightarrow>
          (case map_result (py_index (population s)) (elite_indices s fitness_scores) of
             Inl e \<Rightarrow> Inl e
           | Inr elite \<Rightarrow>
               (case fill_population s normalized_fitness elite g of
                  Inl e \<Rightarrow> Inl e
                | Inr (new_population, g') \<Rightarrow>
                    Inr (s\<lparr>population := new_population, generation := generation s + 1\<rparr>,
                         new_population, generation s + 1, g'))))"

section \<open>Notions of the specification about the simulation and the evolution\<close>

text \<open>A caller stepping the environment through a list of actions.\<close>

fun run_steps :: "env \<Rightarrow> action list \<Rightarrow> env" where
  "run_steps e [] = e"
| "run_steps e (a # as) = run_steps (fst (step e a)) as"

text \<open>
  The reward policy: a penalty of 100 for a collision, ten times the improvement of the
  best average distance when the current one is a new best, a bonus of 1000 for a
  correct parking, and a penalty of 0.1 for the step.
\<close>

definition collision_penalty :: "bool \<Rightarrow> pyfloat" where
  "collision_penalty collided = (if collided then Fin (- 100) else Fin 0)"

definition shaping_term :: "pyfloat \<Rightarrow> pyfloat \<Rightarrow> pyfloat" where
  "shaping_term best current =
     (if fl_less current best then fl_mul (fl_sub best current) (Fin 10) else Fin 0)"

definition parking_bonus :: "bool \<Rightarrow> pyfloat" where
  "parking_bonus parked = (if parked then Fin 1000 else Fin 0)"

definition spec_reward :: "bool \<Rightarrow> pyfloat \<Rightarrow> pyfloat \<Rightarrow> bool \<Rightarrow> pyfloat" where
  "spec_reward collided best current parked =
     fl_add (fl_add (fl_add (collision_penalty collided) (shaping_term best current))
               (parking_bonus parked))
       (Fin (- 0.1))"

text \<open>
  The rectangle of the car overlaps something: a barrier, a registered obstacle, or the
  outside of the arena.
\<close>

definition overlaps :: "env \<Rightarrow> rect \<Rightarrow> bool" where
  "overlaps e r \<longleftrightarrow>
     (\<exists>b \<in> set barriers. colliderect r b)
     \<or> (\<exists>b \<in> set (custom_rectangles e). colliderect r b)
     \<or> outside_arena r"

text \<open>Containment of a rectangle in a target, and the deviation of a heading from 0 degrees.\<close>

definition fully_contained :: "rect \<Rightarrow> rect \<Rightarrow> bool" where
  "fully_contained r target \<longleftrightarrow>
     r_left target \<le> r_left r \<and> r_right r \<le> r_right target
     \<and> r_top target \<le> r_top r \<and> r_bottom r \<le> r_bottom target"

definition heading_deviation :: "int \<Rightarrow> int" where
  "heading_deviation heading = min \<bar>heading mod 360 - 0\<bar> \<bar>heading mod 360 - 360\<bar>"

text \<open>
  The average distance: the mean, over the four corners of the rectangle of the car, of
  the distance from the corner to the nearest point of the parking spot.
\<close>

definition average_corner_distance :: "rect \<Rightarrow> real" where
  "average_corner_distance r =
     (distance (r_left r, r_top r) (nearest_point_on_rect parking_spot (r_left r, r_top r))
      + distance (r_right r, r_top r) (nearest_point_on_rect parking_spot (r_right r, r_top r))
      + distance (r_right r, r_bottom r)
          (nearest_point_on_rect parking_spot (r_right r, r_bottom r))
      + distance (r_left r, r_bottom r)
          (nearest_point_on_rect parking_spot (r_left r, r_bottom r))) / 4"


text \<open>
  The end-to-end scenario of the specification: four all-zero genomes of 180 bits, one
  elite member; the tournament size, which the scenario leaves open, is 2.
\<close>

definition scenario_engine :: ga where
  "scenario_engine =
     \<lparr>population_size = 4, genome_length = 180, mutation_rate = 0.01, elite_size = 1,
      tournament_size = 2,
      population = [replicate 180 0, replicate 180 0, replicate 180 0, replicate 180 0],
      generation = 0, best_fitness = NInf, best_genome = None\<rparr>"

section \<open>Properties of the gene codec\<close>

lemma list_of_length_10:
  "length (xs :: 'a list) = 10 \<Longrightarrow> \<exists>a b c d e f g h i j. xs = [a, b, c, d, e, f, g, h, i, j]"
  by (auto simp: length_Suc_conv numeral_eq_Suc)

lemma clamp_max_min: "max (min x hi) lo = (if lo \<le> hi then clamp x lo hi else max (min x hi) lo)"
  by (simp add: clamp_def max_def min_def)

lemma clamp_100: "max (min x 100) (- 100) = clamp x (- 100) 100"
  by (simp add: clamp_def max_def min_def)

lemma sum5: "(\<Sum>i = 0..<5. f (i::nat)) = f 0 + f 1 + f 2 + f 3 + (f 4 :: real)"
  by (simp add: eval_nat_numeral)

lemma binary_to_float_spec:
  assumes "length b = 10" and "set b \<subseteq> {0, 1}"
  shows "binary_to_float b = Inr (spec_decode b)"
proof -
  from list_of_length_10[OF assms(1)] obtain b0 b1 b2 b3 b4 b5 b6 b7 b8 b9
    where b: "b = [b0, b1, b2, b3, b4, b5, b6, b7, b8, b9]"
    by auto
  have "b ! 0 \<in> set b" using assms(1) by (intro nth_mem) simp
  with assms(2) have sgn: "(b ! 0 \<noteq> 0) = (b ! 0 = 1)" by auto
  have e: "(\<Sum>(i, bit) \<leftarrow> enumerate 0 (rev (py_slice b 1 5)). bit * 2 ^ i) = spec_exponent b"
    unfolding b spec_exponent_def py_slice_def by (simp add: eval_nat_numeral)
  have m: "(\<Sum>(i, bit) \<leftarrow> enumerate 0 (drop 5 b).
                          real_of_int bit * 2 powi (- int (i + 1))) = spec_mantissa b"
    unfolding b spec_mantissa_def sum5 by (simp add: eval_nat_numeral)
  have s: "(if b ! 0 \<noteq> 0 then - 1 else 1 :: real) = spec_sign b"
    unfolding spec_sign_def using sgn by simp
  show ?thesis
    unfolding binary_to_float_def Let_def e m s spec_decode_def clamp_100
    using assms(1) by simp
qed

lemma decode_zeros: "spec_decode (replicate 10 0) = 2 powi (- 7)"
  by (simp add: spec_decode_def spec_sign_def spec_exponent_def spec_mantissa_def sum5
      clamp_def eval_nat_numeral power_int_minus)

lemma decode_ones: "spec_decode (replicate 10 1) = - 100"
  by (simp add: spec_decode_def spec_sign_def spec_exponent_def spec_mantissa_def sum5
      clamp_def eval_nat_numeral power_int_minus)

text \<open>
  C4. For every sequence of ten bits, \<^verbatim>\<open>_binary_to_float\<close> returns the clamp to
  \<open>[-100, 100]\<close> of sign times (1 + mantissa) times 2 to the (exponent - 7), with the
  sign, exponent and mantissa read from the bits as the specification lays them out;
  the value therefore lies in \<open>[-100, 100]\<close>.
\<close>

theorem decode_formula_and_range:
  assumes "length b = 10" and "set b \<subseteq> {0, 1}"
  shows "\<exists>v. binary_to_float b = Inr v \<and> v = spec_decode b \<and> - 100 \<le> v \<and> v \<le> 100"
  using binary_to_float_spec[OF assms] by (simp add: spec_decode_def clamp_def)

text \<open>
  The all-zeros input decodes to \<open>2\<^sup>-\<^sup>7\<close>, the all-ones input (\<open>-504\<close> before the
  clamp) saturates at \<open>-100\<close>.
\<close>

theorem decode_formula_and_range_witness:
  "length (replicate 10 (0::int)) = 10 \<and> set (replicate 10 (0::int)) \<subseteq> {0, 1}
   \<and> binary_to_float (replicate 10 0) = Inr (2 powi (- 7))
   \<and> binary_to_float (replicate 10 1) = Inr (- 100)"
proof -
  have "binary_to_float (replicate 10 0) = Inr (spec_decode (replicate 10 0))"
    using decode_formula_and_range[of "replicate 10 0"] by auto
  moreover have "binary_to_float (replicate 10 1) = Inr (spec_decode (replicate 10 1))"
    using decode_formula_and_range[of "replicate 10 1"] by auto
  ultimately show ?thesis
    unfolding decode_zeros decode_ones by simp
qed


section \<open>Length errors of the codec\<close>

lemma binary_to_float_error_iff:
  "binary_to_float bits = Inl e \<longleftrightarrow> length bits \<noteq> 10 \<and> e = ValueError ''Expected 10 bits''"
  by (auto simp: binary_to_float_def Let_def)

lemma binary_to_float_ok: "length bits = 10 \<Longrightarrow> \<exists>v. binary_to_float bits = Inr v"
  by (simp add: binary_to_float_def Let_def)

lemma coefficient_loop_ok:
  "(\<And>i. i \<in> set starts \<Longrightarrow> length (py_slice bits i (i + 10)) = 10) \<Longrightarrow>
   \<exists>cs. coefficient_loop bits starts acc = Inr (acc @ cs) \<and> length cs = length starts
     \<and> (\<forall>j < length starts.
           binary_to_float (py_slice bits (starts ! j) (starts ! j + 10)) = Inr (cs ! j))"
proof (induction starts arbitrary: acc)
  case Nil
  then show ?case by simp
next
  case (Cons i starts)
  from Cons.prems have "length (py_slice bits i (i + 10)) = 10" by simp
  then obtain v where v: "binary_to_float (py_slice bits i (i + 10)) = Inr v"
    using binary_to_float_ok by blast
  from Cons.IH[of "acc @ [v]"] Cons.prems obtain cs where cs:
    "coefficient_loop bits starts (acc @ [v]) = Inr ((acc @ [v]) @ cs)"
    "length cs = length starts"
    "\<forall>j < length starts.
        binary_to_float (py_slice bits (starts ! j) (starts ! j + 10)) = Inr (cs ! j)"
    by auto
  have "\<forall>j < length (i # starts).
     binary_to_float (py_slice bits ((i # starts) ! j) ((i # starts) ! j + 10)) = Inr ((v # cs) ! j)"
    using v cs(3) by (auto simp: nth_Cons split: nat.splits)
  with cs(1,2) v show ?case by (intro exI[of _ "v # cs"]) simp
qed

lemma coefficient_loop_error:
  "\<exists>i\<in>set starts. length (py_slice bits i (i + 10)) \<noteq> 10 \<Longrightarrow>
   coefficient_loop bits starts acc = Inl (ValueError ''Expected 10 bits'')"
proof (induction starts arbitrary: acc)
  case Nil
  then show ?case by simp
next
  case (Cons i starts)
  show ?case
  proof (cases "length (py_slice bits i (i + 10)) = 10")
    case True
    then obtain v where v: "binary_to_float (py_slice bits i (i + 10)) = Inr v"
      using binary_to_float_ok by blast
    from True Cons.prems have "\<exists>i\<in>set starts. length (py_slice bits i (i + 10)) \<noteq> 10" by auto
    from Cons.IH[OF this] v show ?thesis by simp
  next
    case False
    then have "binary_to_float (py_slice bits i (i + 10)) = Inl (ValueError ''Expected 10 bits'')"
      by (simp add: binary_to_float_error_iff)
    then show ?thesis by simp
  qed
qed

lemma chunk_length: "length (py_slice bits (10 * k) (10 * k + 10)) = min 10 (length bits - 10 * k)"
  by (simp add: py_slice_def)

lemma chunk_count_exact: "n mod 10 = 0 \<Longrightarrow> (n + 9) div 10 = n div (10::nat)"
  by (auto elim!: dvdE simp: mod_eq_0_iff_dvd)

lemma chunk_count_ragged:
  assumes "n mod 10 \<noteq> 0" shows "n div 10 < (n + 9) div (10::nat)"
proof -
  define q r where "q = n div 10" and "r = n mod 10"
  have "n = 10 * q + r" by (simp add: q_def r_def)
  moreover have "1 \<le> r" using assms by (simp add: r_def)
  ultimately have "(q + 1) * 10 \<le> n + 9" by simp
  then have "(n div 10 + 1) * 10 \<le> n + 9" by (simp add: q_def)
  then have "n div 10 + 1 \<le> (n + 9) div 10"
    by (simp add: less_eq_div_iff_mult_less_eq)
  then show ?thesis by simp
qed

lemma chunk_fits:
  assumes "(n::nat) mod 10 = 0" "k < n div 10" shows "10 * k + 10 \<le> n"
proof -
  from assms(1) obtain m where m: "n = 10 * m" by (auto elim!: dvdE simp: mod_eq_0_iff_dvd)
  with assms(2) show ?thesis by simp
qed

lemma chunk_rest: "(n::nat) - 10 * (n div 10) = n mod 10"
  by (simp add: minus_mult_div_eq_mod)

lemma bits_to_coefficients_ok:
  assumes "length bits mod 10 = 0"
  shows "\<exists>cs. bits_to_coefficients bits = Inr cs \<and> length cs = length bits div 10
     \<and> (\<forall>k < length bits div 10.
           binary_to_float (py_slice bits (10 * k) (10 * k + 10)) = Inr (cs ! k))"
proof -
  have starts: "chunk_starts (length bits) = map (\<lambda>k. 10 * k) [0..<length bits div 10]"
    by (simp add: chunk_starts_def chunk_count_exact[OF assms])
  have "length (py_slice bits i (i + 10)) = 10" if "i \<in> set (chunk_starts (length bits))" for i
  proof -
    from that obtain k where k: "i = 10 * k" "k < length bits div 10"
      unfolding starts by auto
    from chunk_fits[OF assms k(2)] show ?thesis unfolding k(1) chunk_length by simp
  qed
  from coefficient_loop_ok[OF this, of "chunk_starts (length bits)" "[]"] show ?thesis
    unfolding bits_to_coefficients_def starts by auto
qed

lemma bits_to_coefficients_error:
  assumes "length bits mod 10 \<noteq> 0"
  shows "bits_to_coefficients bits = Inl (ValueError ''Expected 10 bits'')"
proof -
  let ?k = "length bits div 10"
  have "10 * ?k \<in> set (chunk_starts (length bits))"
    using chunk_count_ragged[OF assms] by (simp add: chunk_starts_def)
  moreover have "length (py_slice bits (10 * ?k) (10 * ?k + 10)) \<noteq> 10"
    unfolding chunk_length chunk_rest using assms by simp
  ultimately show ?thesis
    unfolding bits_to_coefficients_def by (intro coefficient_loop_error) blast
qed

lemma bits_to_coefficients_isl:
  "isl (bits_to_coefficients bits) \<longleftrightarrow> length bits mod 10 \<noteq> 0"
proof (cases "length bits mod 10 = 0")
  case True
  from bits_to_coefficients_ok[OF True] obtain cs where "bits_to_coefficients bits = Inr cs"
    by blast
  with True show ?thesis by simp
next
  case False
  from bits_to_coefficients_error[OF False] False show ?thesis by simp
qed

lemma bits_to_coefficients_Inl:
  "bits_to_coefficients bits = Inl e \<Longrightarrow> e = ValueError ''Expected 10 bits''"
proof (cases "length bits mod 10 = 0")
  case True
  from bits_to_coefficients_ok[OF True] obtain cs where "bits_to_coefficients bits = Inr cs"
    by blast
  then show "bits_to_coefficients bits = Inl e \<Longrightarrow> ?thesis" by simp
next
  case False
  from bits_to_coefficients_error[OF False]
  show "bits_to_coefficients bits = Inl e \<Longrightarrow> ?thesis" by simp
qed

lemma brain_init_ok:
  assumes "length g = 180"
  shows "\<exists>ec wc. bits_to_coefficients (take 90 g) = Inr ec \<and> length ec = 9
     \<and> bits_to_coefficients (drop 90 g) = Inr wc \<and> length wc = 9
     \<and> brain_init g = Inr \<lparr>genome = g, engine_coefficients = ec, wheel_coefficients = wc\<rparr>"
proof -
  from bits_to_coefficients_ok[of "take 90 g"] assms obtain ec where
    ec: "bits_to_coefficients (take 90 g) = Inr ec" "length ec = 9" by auto
  from bits_to_coefficients_ok[of "drop 90 g"] assms obtain wc where
    wc: "bits_to_coefficients (drop 90 g) = Inr wc" "length wc = 9" by auto
  show ?thesis using ec wc assms by (simp add: brain_init_def)
qed

lemma chunk_starts_20: "chunk_starts 20 = [0, 10]"
  by (simp add: chunk_starts_def upt_rec)

text \<open>
  C5, as the claim states it, fails: a sequence of twenty bits is not ninety bits long,
  and \<^verbatim>\<open>_bits_to_coefficients\<close> decodes it into two coefficients without an error.
\<close>

theorem vector_decode_twenty_bits_counterexample:
  "length (replicate 20 (0::int)) \<noteq> 90
   \<and> bits_to_coefficients (replicate 20 0) = Inr [1 / 128, 1 / 128]"
  unfolding bits_to_coefficients_def length_replicate chunk_starts_20
  by (simp add: py_slice_def binary_to_float_def eval_nat_numeral power_int_minus)

text \<open>
  C5, amended. On sequences of binary values: \<^verbatim>\<open>_binary_to_float\<close> fails, with the
  ValueError of its length check, exactly when its input is not ten bits long.
  \<^verbatim>\<open>_bits_to_coefficients\<close> has no length check of its own: it fails, with that same
  error from its last chunk, exactly when the length of its input is not a multiple of
  ten, and a sequence of ninety bits always yields nine coefficients. The check for the
  genome is in the constructor, which fails exactly when the genome is not 180 bits long.
  No call has another error.
\<close>

theorem decode_length_errors:
  assumes "set bits \<subseteq> {0, 1}" and "set g \<subseteq> {0, 1}"
  shows "(isl (binary_to_float bits) \<longleftrightarrow> length bits \<noteq> 10)
   \<and> (isl (bits_to_coefficients bits) \<longleftrightarrow> length bits mod 10 \<noteq> 0)
   \<and> (length bits = 90 \<longrightarrow> (\<exists>cs. bits_to_coefficients bits = Inr cs \<and> length cs = 9))
   \<and> (isl (brain_init g) \<longleftrightarrow> length g \<noteq> 180)
   \<and> (\<forall>e. binary_to_float bits = Inl e \<or> bits_to_coefficients bits = Inl e
          \<longrightarrow> e = ValueError ''Expected 10 bits'')
   \<and> (\<forall>e. brain_init g = Inl e \<longrightarrow> e = ValueError ''Genome must be 180 bits long'')"
proof (intro conjI)
  show "isl (binary_to_float bits) \<longleftrightarrow> length bits \<noteq> 10"
    by (simp add: binary_to_float_def Let_def)
  show "isl (bits_to_coefficients bits) \<longleftrightarrow> length bits mod 10 \<noteq> 0"
    by (rule bits_to_coefficients_isl)
  show "length bits = 90 \<longrightarrow> (\<exists>cs. bits_to_coefficients bits = Inr cs \<and> length cs = 9)"
    using bits_to_coefficients_ok[of bits] by auto
  show "isl (brain_init g) \<longleftrightarrow> length g \<noteq> 180"
    using brain_init_ok[of g] by (auto simp: brain_init_def)
  show "\<forall>e. binary_to_float bits = Inl e \<or> bits_to_coefficients bits = Inl e
          \<longrightarrow> e = ValueError ''Expected 10 bits''"
    using bits_to_coefficients_Inl[of bits] by (auto simp: binary_to_float_error_iff)
  show "\<forall>e. brain_init g = Inl e \<longrightarrow> e = ValueError ''Genome must be 180 bits long''"
    using brain_init_ok[of g] by (auto simp: brain_init_def)
qed

theorem decode_length_errors_witness:
  "set (replicate 90 (0::int)) \<subseteq> {0, 1} \<and> set (replicate 91 (0::int)) \<subseteq> {0, 1}
   \<and> set (replicate 180 (0::int)) \<subseteq> {0, 1}
   \<and> length (replicate 90 (0::int)) = 90 \<and> length (replicate 90 (0::int)) mod 10 = 0
   \<and> \<not> isl (bits_to_coefficients (replicate 90 0))
   \<and> \<not> isl (brain_init (replicate 180 0))
   \<and> isl (bits_to_coefficients (replicate 91 0))"
proof -
  have b: "set (replicate 90 (0::int)) \<subseteq> {0, 1}" "set (replicate 91 (0::int)) \<subseteq> {0, 1}"
    "set (replicate 180 (0::int)) \<subseteq> {0, 1}"
    by simp_all
  from decode_length_errors[OF b(1) b(3)] decode_length_errors[OF b(2) b(3)] b
  show ?thesis by simp
qed


section \<open>The decision rule of the controller\<close>

lemma list_of_length_8:
  "length (xs :: 'a list) = 8 \<Longrightarrow> \<exists>a b c d e f g h. xs = [a, b, c, d, e, f, g, h]"
  by (auto simp: length_Suc_conv numeral_eq_Suc)

lemma list_of_length_9:
  "length (xs :: 'a list) = 9 \<Longrightarrow> \<exists>a b c d e f g h i. xs = [a, b, c, d, e, f, g, h, i]"
  by (auto simp: length_Suc_conv numeral_eq_Suc)

lemma sum8:
  "(\<Sum>i = 0..<8. f (i::nat)) = f 0 + f 1 + f 2 + f 3 + f 4 + f 5 + f 6 + (f 7 :: real)"
  by (simp add: eval_nat_numeral)

lemma clamp_sensor: "max (min s 100) 0 = clamp s 0 100"
  by (simp add: clamp_def max_def min_def)

lemma clamp_500: "max (min s 500) (- 500) = clamp s (- 500) 500"
  by (simp add: clamp_def max_def min_def)

lemma exp_never_overflows: "py_exp (- clamp s (- 500) 500) = Inr (exp (- clamp s (- 500) 500))"
  by (simp add: py_exp_def exp_overflow_bound_def clamp_def)

lemma signal_to_action_spec: "signal_to_action s = spec_action (spec_squash s)"
  unfolding signal_to_action_def spec_squash_def spec_action_def Let_def clamp_500
    exp_never_overflows
  by simp

lemma weighted_signal_spec:
  assumes "length cs = 9" and "length sensors = 8"
  shows "weighted_signal cs (map (\<lambda>s. max (min s 100) 0) sensors) = Inr (spec_signal cs sensors)"
proof -
  from list_of_length_9[OF assms(1)] obtain c0 c1 c2 c3 c4 c5 c6 c7 c8
    where cs: "cs = [c0, c1, c2, c3, c4, c5, c6, c7, c8]" by auto
  from list_of_length_8[OF assms(2)] obtain s0 s1 s2 s3 s4 s5 s6 s7
    where ss: "sensors = [s0, s1, s2, s3, s4, s5, s6, s7]" by auto
  show ?thesis
    unfolding cs ss weighted_signal_def spec_signal_def sum8 py_last_def Let_def clamp_sensor
    by (simp add: eval_nat_numeral)
qed

lemma make_decision_spec:
  assumes "length (engine_coefficients b) = 9" and "length (wheel_coefficients b) = 9"
    and "length sensors = 8"
  shows "make_decision b sensors =
           Inr (spec_decide (engine_coefficients b) (wheel_coefficients b) sensors)"
  unfolding make_decision_def Let_def
    weighted_signal_spec[OF assms(1) assms(3)] weighted_signal_spec[OF assms(2) assms(3)]
    clamp_100 signal_to_action_spec spec_decide_def spec_channel_def
  using assms(3) by simp

lemma slice_of_take:
  assumes "10 * k + 10 \<le> (90::nat)"
  shows "py_slice (take 90 g) (10 * k) (10 * k + 10) = py_slice g (10 * k) (10 * k + 10)"
  using assms by (simp add: py_slice_def drop_take min_def)

lemma slice_of_drop:
  "py_slice (drop 90 g) (10 * k) (10 * k + 10) = py_slice g (90 + 10 * k) (90 + 10 * k + 10)"
  by (simp add: py_slice_def add.commute)

lemma slice_is_binary_chunk:
  assumes "length g = 180" and "set g \<subseteq> {0, 1 :: int}" and "a + 10 \<le> 180"
  shows "length (py_slice g a (a + 10)) = 10 \<and> set (py_slice g a (a + 10)) \<subseteq> {0, 1}"
proof -
  have "set (py_slice g a (a + 10)) \<subseteq> set g"
    unfolding py_slice_def using set_take_subset set_drop_subset by fast
  with assms show ?thesis by (simp add: py_slice_def)
qed

text \<open>
  C6. A genome of 180 binary values builds a brain whose engine coefficients are the nine
  values decoded from the ten-bit chunks of the first ninety bits and whose wheel
  coefficients are those of the last ninety; for eight sensor values \<^verbatim>\<open>make_decision\<close>
  returns, per channel, the action the specification describes: sensors clamped to
  \<open>[0, 100]\<close>, weighted sum plus bias, clamp to \<open>[-100, 100]\<close>, logistic function of the
  signal clamped to \<open>[-500, 500]\<close>, thresholds 0.33 and 0.66. The exponential never
  overflows on the clamped signal, so the saturating fallback is never taken. The result
  is a function of the brain and the sensors alone: the model has no state to change.
\<close>

theorem make_decision_follows_spec:
  assumes "length g = 180" and "set g \<subseteq> {0, 1}" and "length sensors = 8"
  shows "\<exists>b. brain_init g = Inr b \<and> genome b = g
     \<and> length (engine_coefficients b) = 9 \<and> length (wheel_coefficients b) = 9
     \<and> (\<forall>k < 9. binary_to_float (py_slice g (10 * k) (10 * k + 10))
                   = Inr (engine_coefficients b ! k))
     \<and> (\<forall>k < 9. binary_to_float (py_slice g (90 + 10 * k) (90 + 10 * k + 10))
                   = Inr (wheel_coefficients b ! k))
     \<and> (\<forall>k < 9. engine_coefficients b ! k = spec_decode (py_slice g (10 * k) (10 * k + 10)))
     \<and> (\<forall>k < 9. wheel_coefficients b ! k
                   = spec_decode (py_slice g (90 + 10 * k) (90 + 10 * k + 10)))
     \<and> make_decision b sensors
         = Inr (spec_decide (engine_coefficients b) (wheel_coefficients b) sensors)
     \<and> (\<forall>s. \<not> isl (py_exp (- clamp s (- 500) 500)))"
proof -
  from bits_to_coefficients_ok[of "take 90 g"] assms(1) obtain ec where
    ec: "bits_to_coefficients (take 90 g) = Inr ec" "length ec = 9"
      "\<forall>k < 9. binary_to_float (py_slice (take 90 g) (10 * k) (10 * k + 10)) = Inr (ec ! k)"
    by auto
  from bits_to_coefficients_ok[of "drop 90 g"] assms(1) obtain wc where
    wc: "bits_to_coefficients (drop 90 g) = Inr wc" "length wc = 9"
      "\<forall>k < 9. binary_to_float (py_slice (drop 90 g) (10 * k) (10 * k + 10)) = Inr (wc ! k)"
    by auto
  let ?b = "\<lparr>genome = g, engine_coefficients = ec, wheel_coefficients = wc\<rparr>"
  have init: "brain_init g = Inr ?b"
    using ec(1) wc(1) assms(1) by (simp add: brain_init_def)
  have e: "\<forall>k < 9. binary_to_float (py_slice g (10 * k) (10 * k + 10)) = Inr (ec ! k)"
  proof (intro allI impI)
    fix k :: nat assume "k < 9"
    then have le: "10 * k + 10 \<le> 90" by simp
    show "binary_to_float (py_slice g (10 * k) (10 * k + 10)) = Inr (ec ! k)"
      using ec(3)[rule_format, OF \<open>k < 9\<close>] unfolding slice_of_take[OF le] .
  qed
  have w: "\<forall>k < 9. binary_to_float (py_slice g (90 + 10 * k) (90 + 10 * k + 10)) = Inr (wc ! k)"
    using wc(3) unfolding slice_of_drop .
  have es: "\<forall>k < 9. ec ! k = spec_decode (py_slice g (10 * k) (10 * k + 10))"
  proof (intro allI impI)
    fix k :: nat assume k: "k < 9"
    then have "10 * k + 10 \<le> 180" by simp
    from slice_is_binary_chunk[OF assms(1) assms(2) this]
    have "binary_to_float (py_slice g (10 * k) (10 * k + 10))
            = Inr (spec_decode (py_slice g (10 * k) (10 * k + 10)))"
      by (intro binary_to_float_spec) simp_all
    with e[rule_format, OF k]
    show "ec ! k = spec_decode (py_slice g (10 * k) (10 * k + 10))" by simp
  qed
  have ws: "\<forall>k < 9. wc ! k = spec_decode (py_slice g (90 + 10 * k) (90 + 10 * k + 10))"
  proof (intro allI impI)
    fix k :: nat assume k: "k < 9"
    then have "(90 + 10 * k) + 10 \<le> 180" by simp
    from slice_is_binary_chunk[OF assms(1) assms(2) this]
    have "binary_to_float (py_slice g (90 + 10 * k) (90 + 10 * k + 10))
            = Inr (spec_decode (py_slice g (90 + 10 * k) (90 + 10 * k + 10)))"
      by (intro binary_to_float_spec) simp_all
    with w[rule_format, OF k]
    show "wc ! k = spec_decode (py_slice g (90 + 10 * k) (90 + 10 * k + 10))" by simp
  qed
  have d: "make_decision ?b sensors = Inr (spec_decide ec wc sensors)"
    using make_decision_spec[of ?b sensors] ec(2) wc(2) assms(3) by simp
  have "\<forall>s. \<not> isl (py_exp (- clamp s (- 500) 500))"
    by (simp add: exp_never_overflows)
  with init e w es ws d ec(2) wc(2) show ?thesis
    by (intro exI[of _ ?b]) simp
qed


lemma zero_chunk:
  assumes "10 * k + 10 \<le> (180::nat)"
  shows "py_slice (replicate 180 (0::int)) (10 * k) (10 * k + 10) = replicate 10 0"
  using assms by (simp add: py_slice_def min_def)

lemma binary_to_float_zeros: "binary_to_float (replicate 10 0) = Inr (1 / 128)"
  using binary_to_float_spec[of "replicate 10 0"] decode_zeros
  by (simp add: power_int_minus)

lemma logistic_between:
  fixes e :: real
  assumes "127 / 128 \<le> e" and "e \<le> 1"
  shows "\<not> 1 / (1 + e) < 0.33 \<and> \<not> 1 / (1 + e) > 0.66"
proof -
  have pos: "0 < 1 + e" using assms by linarith
  have "33 / 100 * (1 + e) \<le> 1" using assms by (simp add: algebra_simps)
  then have a: "33 / 100 \<le> 1 / (1 + e)" using pos by (simp add: pos_le_divide_eq)
  have "1 \<le> 66 / 100 * (1 + e)" using assms by (simp add: algebra_simps)
  then have b: "1 / (1 + e) \<le> 66 / 100" using pos by (simp add: pos_divide_le_eq)
  have "(0.33 :: real) = 33 / 100" and "(0.66 :: real) = 66 / 100" by simp_all
  with a b show ?thesis by linarith
qed

lemma squash_small: "spec_action (spec_squash (1 / 128)) = 0"
proof -
  have c: "clamp (1 / 128) (- 500) 500 = 1 / 128" by (simp add: clamp_def)
  define e :: real where "e = exp (- (1 / 128))"
  have lo: "e \<le> 1" by (simp add: e_def)
  have "1 + (- (1 / 128 :: real)) \<le> exp (- (1 / 128))" by (rule exp_ge_add_one_self)
  then have hi: "127 / 128 \<le> e" by (simp add: e_def)
  have sq: "spec_squash (1 / 128) = 1 / (1 + e)"
    unfolding spec_squash_def Let_def c e_def using exp_never_overflows[of "1 / 128"]
    by (simp add: c)
  show ?thesis
    unfolding sq spec_action_def using logistic_between[OF hi lo] by simp
qed

theorem make_decision_follows_spec_witness:
  "length (replicate 180 (0::int)) = 180 \<and> set (replicate 180 (0::int)) \<subseteq> {0, 1}
   \<and> length (replicate 8 (0::real)) = 8
   \<and> (\<exists>b. brain_init (replicate 180 0) = Inr b
          \<and> make_decision b (replicate 8 0) = Inr \<lparr>engine = 0, wheels = 0\<rparr>)"
proof -
  let ?g = "replicate 180 (0::int)" and ?s = "replicate 8 (0::real)"
  have bin: "set ?g \<subseteq> {0, 1}" by simp
  from make_decision_follows_spec[of ?g ?s, OF _ bin] obtain b where
    init: "brain_init ?g = Inr b"
    and e: "\<forall>k < 9. binary_to_float (py_slice ?g (10 * k) (10 * k + 10))
                   = Inr (engine_coefficients b ! k)"
    and w: "\<forall>k < 9. binary_to_float (py_slice ?g (90 + 10 * k) (90 + 10 * k + 10))
                   = Inr (wheel_coefficients b ! k)"
    and d: "make_decision b ?s
         = Inr (spec_decide (engine_coefficients b) (wheel_coefficients b) ?s)"
    by auto
  have "engine_coefficients b ! 8 = 1 / 128"
    using e[rule_format, of 8] zero_chunk[of 8] binary_to_float_zeros by simp
  then have es: "spec_signal (engine_coefficients b) ?s = 1 / 128"
    by (simp add: spec_signal_def sum8 clamp_def eval_nat_numeral)
  have "py_slice ?g (90 + 10 * 8) (90 + 10 * 8 + 10) = replicate 10 0"
    using zero_chunk[of 17] by simp
  then have "wheel_coefficients b ! 8 = 1 / 128"
    using w[rule_format, of 8] binary_to_float_zeros by simp
  then have ws: "spec_signal (wheel_coefficients b) ?s = 1 / 128"
    by (simp add: spec_signal_def sum8 clamp_def eval_nat_numeral)
  have cl: "clamp (1 / 128) (- 100) 100 = 1 / 128" by (simp add: clamp_def)
  have "spec_decide (engine_coefficients b) (wheel_coefficients b) ?s
          = \<lparr>engine = 0, wheels = 0\<rparr>"
    unfolding spec_decide_def spec_channel_def es ws cl squash_small by simp
  with init d show ?thesis by auto
qed


section \<open>Properties of the simulation\<close>

lemma parking_spot_value: "parking_spot = Rect 600 200 66 44"
  by (simp add: parking_spot_def py_int_def)

lemma barrier_thickness_value: "barrier_thickness = 4"
  by (simp add: barrier_thickness_def py_int_def)

lemma barriers_value:
  "barriers = [Rect 0 0 800 4, Rect 0 0 4 600, Rect 0 596 800 4, Rect 796 0 4 600]"
  by (simp add: barriers_def create_barriers_def barrier_thickness_value WIDTH_def HEIGHT_def)

subsection \<open>After the end of an episode\<close>

lemma step_finished: "episode_finished e \<Longrightarrow> step e a = (e, get_state e, Fin 0, True, [])"
  by (simp add: step_def)

lemma run_steps_finished: "episode_finished e \<Longrightarrow> run_steps e as = e"
  by (induction as) (simp_all add: step_finished)

text \<open>
  C8. Once the episode has finished, \<^verbatim>\<open>step\<close> returns the current observation, the
  reward 0, \<open>done = True\<close> and the empty dictionary, for every action, and leaves the
  environment as it is; this stays so after any number of further steps.
\<close>

theorem step_after_finish_is_noop:
  assumes "episode_finished e"
  shows "step e a = (e, get_state e, Fin 0, True, [])
     \<and> run_steps e as = e
     \<and> step (run_steps e as) a' = (e, get_state e, Fin 0, True, [])"
  using assms by (simp add: step_finished run_steps_finished)

theorem step_after_finish_is_noop_witness:
  "episode_finished ((env_init (\<lambda>_. (44, 30)))\<lparr>episode_finished := True\<rparr>)
   \<and> fst (snd (snd (step ((env_init (\<lambda>_. (44, 30)))\<lparr>episode_finished := True\<rparr>)
                    \<lparr>engine = 1, wheels = - 1\<rparr>))) = Fin 0
   \<and> fst (step ((env_init (\<lambda>_. (44, 30)))\<lparr>episode_finished := True\<rparr>) \<lparr>engine = 1, wheels = - 1\<rparr>)
       = (env_init (\<lambda>_. (44, 30)))\<lparr>episode_finished := True\<rparr>
   \<and> car_speed (current_state
         (run_steps ((env_init (\<lambda>_. (44, 30)))\<lparr>episode_finished := True\<rparr>)
            [\<lparr>engine = 1, wheels = 0\<rparr>, \<lparr>engine = 1, wheels = 1\<rparr>])) = 0"
  using step_after_finish_is_noop[of "(env_init (\<lambda>_. (44, 30)))\<lparr>episode_finished := True\<rparr>"
      "\<lparr>engine = 1, wheels = - 1\<rparr>" "[\<lparr>engine = 1, wheels = 0\<rparr>, \<lparr>engine = 1, wheels = 1\<rparr>]"]
  by (simp add: env_init_def initial_state_def)

subsection \<open>The parking predicate\<close>

lemma contained_collides:
  assumes "0 < rw r" and "0 < rh r" and "fully_contained r parking_spot"
  shows "colliderect parking_spot r"
  using assms
  by (simp add: fully_contained_def colliderect_def parking_spot_value Rect_def
      r_left_def r_right_def r_top_def r_bottom_def)

lemma is_parked_correctly_Some:
  assumes "rotated_collision_rect e = Some r" and "rect_truthy r"
  shows "is_parked_correctly e \<longleftrightarrow>
           colliderect parking_spot r \<and> fully_contained r parking_spot
           \<and> heading_deviation (rotation (current_state e)) \<le> 10"
  using assms
  by (auto simp: is_parked_correctly_def fully_contained_def heading_deviation_def Let_def)

text \<open>
  C9. The car is parked correctly exactly when its collision rectangle lies within the
  parking spot on all four sides and its heading, taken modulo 360, deviates from 0 by at
  most 10 degrees directly or around the circle. The rectangle is the one of the last
  position update and has a positive width and height; before the first update there is
  none and the car is not parked.
\<close>

theorem parked_iff_contained_and_aligned:
  "(rotated_collision_rect e = None \<longrightarrow> \<not> is_parked_correctly e)
   \<and> (\<forall>r. rotated_collision_rect e = Some r \<and> 0 < rw r \<and> 0 < rh r \<longrightarrow>
          (is_parked_correctly e \<longleftrightarrow>
             fully_contained r parking_spot
             \<and> heading_deviation (rotation (current_state e)) \<le> 10))"
proof (intro conjI allI impI)
  assume "rotated_collision_rect e = None"
  then show "\<not> is_parked_correctly e" by (simp add: is_parked_correctly_def)
next
  fix r assume r: "rotated_collision_rect e = Some r \<and> 0 < rw r \<and> 0 < rh r"
  then have truthy: "rect_truthy r" by (simp add: rect_truthy_def)
  from r have "fully_contained r parking_spot \<Longrightarrow> colliderect parking_spot r"
    by (simp add: contained_collides)
  with is_parked_correctly_Some[OF _ truthy, of e] r
  show "is_parked_correctly e \<longleftrightarrow>
          fully_contained r parking_spot \<and> heading_deviation (rotation (current_state e)) \<le> 10"
    by blast
qed

text \<open>
  A rectangle of the car's size inside the spot: parked with heading 0, not parked with
  heading 15.
\<close>

theorem parked_iff_contained_and_aligned_witness:
  "rotated_collision_rect ((env_init (\<lambda>_. (44, 30)))
       \<lparr>rotated_collision_rect := Some (Rect 610 205 44 30)\<rparr>) = Some (Rect 610 205 44 30)
   \<and> 0 < rw (Rect 610 205 44 30) \<and> 0 < rh (Rect 610 205 44 30)
   \<and> is_parked_correctly ((env_init (\<lambda>_. (44, 30)))
       \<lparr>rotated_collision_rect := Some (Rect 610 205 44 30)\<rparr>)
   \<and> \<not> is_parked_correctly ((env_init (\<lambda>_. (44, 30)))
       \<lparr>rotated_collision_rect := Some (Rect 610 205 44 30),
        current_state := initial_state\<lparr>rotation := 15\<rparr>\<rparr>)
   \<and> \<not> is_parked_correctly (env_init (\<lambda>_. (44, 30)))"
  using parked_iff_contained_and_aligned[of "(env_init (\<lambda>_. (44, 30)))
       \<lparr>rotated_collision_rect := Some (Rect 610 205 44 30)\<rparr>"]
    parked_iff_contained_and_aligned[of "(env_init (\<lambda>_. (44, 30)))
       \<lparr>rotated_collision_rect := Some (Rect 610 205 44 30),
        current_state := initial_state\<lparr>rotation := 15\<rparr>\<rparr>"]
    parked_iff_contained_and_aligned[of "env_init (\<lambda>_. (44, 30))"]
  by (simp add: env_init_def initial_state_def Rect_def fully_contained_def
      heading_deviation_def parking_spot_value r_left_def r_right_def r_top_def r_bottom_def)


subsection \<open>What the parts of a step leave unchanged\<close>

lemma update_parking_distance_frame:
  "current_state (update_parking_distance e) = current_state e"
  "rotated_collision_rect (update_parking_distance e) = rotated_collision_rect e"
  "best_distance (update_parking_distance e) = best_distance e"
  "current_fitness (update_parking_distance e) = current_fitness e"
  "episode_finished (update_parking_distance e) = episode_finished e"
  "current_step (update_parking_distance e) = current_step e"
  "custom_rectangles (update_parking_distance e) = custom_rectangles e"
  "ray_distances (update_parking_distance e) = ray_distances e"
  by (simp_all add: update_parking_distance_def Let_def split: option.splits)

lemma update_sensors_frame:
  "current_state (update_sensors e) = current_state e"
  "rotated_collision_rect (update_sensors e) = rotated_collision_rect e"
  "best_distance (update_sensors e) = best_distance e"
  "current_fitness (update_sensors e) = current_fitness e"
  "episode_finished (update_sensors e) = episode_finished e"
  "current_step (update_sensors e) = current_step e"
  "custom_rectangles (update_sensors e) = custom_rectangles e"
  by (simp_all add: update_sensors_def Let_def update_parking_distance_frame)

lemma update_sensors_length: "length (ray_distances (update_sensors e)) = 8"
  by (simp add: update_sensors_def Let_def update_parking_distance_frame)

lemma update_parking_distance_None:
  "rotated_collision_rect e = None \<Longrightarrow> update_parking_distance e = e"
  by (simp add: update_parking_distance_def)

lemma update_parking_distance_Some:
  "rotated_collision_rect e = Some r \<Longrightarrow>
   average_distance (update_parking_distance e) = Fin (average_corner_distance r)"
  by (simp add: update_parking_distance_def Let_def average_corner_distance_def)

lemma update_sensors_Some:
  assumes "rotated_collision_rect e = Some r"
  shows "average_distance (update_sensors e) = Fin (average_corner_distance r)"
  unfolding update_sensors_def Let_def
  by (rule update_parking_distance_Some) (simp add: assms)

lemma update_sensors_None:
  "rotated_collision_rect e = None \<Longrightarrow> average_distance (update_sensors e) = average_distance e"
  by (simp add: update_sensors_def Let_def update_parking_distance_None)

lemma calculate_reward_frame:
  "current_state (fst (calculate_reward e st)) = current_state e"
  "rotated_collision_rect (fst (calculate_reward e st)) = rotated_collision_rect e"
  "episode_finished (fst (calculate_reward e st)) = episode_finished e"
  "current_step (fst (calculate_reward e st)) = current_step e"
  "custom_rectangles (fst (calculate_reward e st)) = custom_rectangles e"
  by (simp_all add: calculate_reward_def Let_def)

lemma check_episode_end_frame:
  "current_state (fst (check_episode_end e st)) = current_state e"
  "rotated_collision_rect (fst (check_episode_end e st)) = rotated_collision_rect e"
  "best_distance (fst (check_episode_end e st)) = best_distance e"
  "current_fitness (fst (check_episode_end e st)) = current_fitness e"
  "custom_rectangles (fst (check_episode_end e st)) = custom_rectangles e"
  by (simp_all add: check_episode_end_def)

lemma is_parked_correctly_cong:
  assumes "rotated_collision_rect e' = rotated_collision_rect e"
    and "current_state e' = current_state e"
  shows "is_parked_correctly e' = is_parked_correctly e"
  unfolding is_parked_correctly_def assms ..

text \<open>The environment at the moment the reward of a running step is computed.\<close>

lemma step_running:
  assumes "\<not> episode_finished e"
  shows "step e a =
    (let e3 = update_sensors ((apply_action e a)\<lparr>current_step := current_step (apply_action e a) + 1\<rparr>)
     in (fst (check_episode_end (fst (calculate_reward e3 (get_state e3))) (get_state e3)),
         get_state e3,
         snd (calculate_reward e3 (get_state e3)),
         snd (check_episode_end (fst (calculate_reward e3 (get_state e3))) (get_state e3)),
         []))"
  using assms by (simp add: step_def Let_def split: prod.splits)

lemma step_current_state:
  assumes "\<not> episode_finished e"
  shows "current_state (fst (step e a)) = current_state (apply_action e a)"
    and "rotated_collision_rect (fst (step e a)) = rotated_collision_rect (apply_action e a)"
  unfolding step_running[OF assms] Let_def
  by (simp_all add: check_episode_end_frame calculate_reward_frame update_sensors_frame)

subsection \<open>Collisions\<close>

lemma check_collisions_detected: "snd (check_collisions e r) = overlaps e r"
  by (simp add: check_collisions_def overlaps_def Let_def list_ex_iff)

lemma check_collisions_state:
  "current_state (fst (check_collisions e r)) =
     (if overlaps e r
      then (current_state e)\<lparr>car_speed := 0,
                              collision_counter := collision_counter (current_state e) + 1\<rparr>
      else current_state e)"
  by (simp add: check_collisions_def overlaps_def Let_def list_ex_iff)

lemma check_collisions_rect:
  "rotated_collision_rect (fst (check_collisions e r)) = rotated_collision_rect e"
  by (simp add: check_collisions_def Let_def)

lemma overlaps_cong: "custom_rectangles e' = custom_rectangles e \<Longrightarrow> overlaps e' r = overlaps e r"
  by (simp add: overlaps_def)

lemma update_position_state:
  "current_state (update_position e) =
     (if overlaps e (candidate_rect e)
      then (current_state e)\<lparr>car_speed := 0,
                              collision_counter := collision_counter (current_state e) + 1\<rparr>
      else if car_speed (current_state e) \<noteq> 0
      then (current_state e)\<lparr>car_pos_x := fst (new_car_pos e), car_pos_y := snd (new_car_pos e)\<rparr>
      else current_state e)"
proof -
  let ?e1 = "e\<lparr>car_rect := moved_car_rect e, rotated_collision_rect := Some (candidate_rect e)\<rparr>"
  have o: "overlaps ?e1 (candidate_rect e) = overlaps e (candidate_rect e)"
    by (rule overlaps_cong) simp
  show ?thesis
    unfolding update_position_def Let_def
    by (simp add: split_beta check_collisions_detected check_collisions_state o)
qed

lemma update_position_rect:
  "rotated_collision_rect (update_position e) = Some (candidate_rect e)"
  unfolding update_position_def Let_def
  by (simp add: split_beta check_collisions_rect)

lemma after_controls_frame:
  "car_pos_x (current_state (after_controls e a)) = car_pos_x (current_state e)"
  "car_pos_y (current_state (after_controls e a)) = car_pos_y (current_state e)"
  "collision_counter (current_state (after_controls e a)) = collision_counter (current_state e)"
  "custom_rectangles (after_controls e a) = custom_rectangles e"
  by (simp_all add: after_controls_def Let_def)

text \<open>
  C7. In a step of a running episode, let the candidate rectangle be the collision
  rectangle at the candidate position, computed after the speed and the heading have
  been updated from the action. If it overlaps a barrier, a registered obstacle or the
  outside of the arena, the step leaves the speed at 0, the collision counter one higher
  and the stored position as it was. If it does not and the speed is not zero, the
  stored position becomes the candidate position (and the counter and the speed are
  those after the controls). In both cases the candidate rectangle is the stored one.
\<close>

theorem collision_discards_move:
  assumes "\<not> episode_finished e"
  shows "let ec = after_controls e a;
             r = candidate_rect ec;
             cs = current_state e;
             cs' = current_state (fst (step e a))
         in rotated_collision_rect (fst (step e a)) = Some r
            \<and> (overlaps e r \<longrightarrow>
                 car_speed cs' = 0
                 \<and> collision_counter cs' = collision_counter cs + 1
                 \<and> car_pos_x cs' = car_pos_x cs \<and> car_pos_y cs' = car_pos_y cs)
            \<and> (\<not> overlaps e r \<and> car_speed (current_state ec) \<noteq> 0 \<longrightarrow>
                 (car_pos_x cs', car_pos_y cs') = new_car_pos ec
                 \<and> collision_counter cs' = collision_counter cs
                 \<and> car_speed cs' = car_speed (current_state ec))"
proof -
  have o: "overlaps (after_controls e a) r = overlaps e r" for r
    by (rule overlaps_cong) (simp add: after_controls_frame)
  show ?thesis
    unfolding Let_def step_current_state[OF assms] apply_action_def
      update_position_state update_position_rect o
    by (simp add: after_controls_frame)
qed


text \<open>
  A car at x = 10 facing the left barrier: its rectangle reaches x = - 12, so the step
  counts a collision and leaves the car where it was. From the start position, one
  acceleration moves the car by 0.025.
\<close>

lemma radians_0: "radians 0 = 0"
  by (simp add: radians_def)

theorem collision_discards_move_witness:
  "\<not> episode_finished
       ((env_init (\<lambda>_. (44, 30)))\<lparr>current_state := initial_state\<lparr>car_pos_x := 10\<rparr>\<rparr>)
   \<and> overlaps ((env_init (\<lambda>_. (44, 30)))\<lparr>current_state := initial_state\<lparr>car_pos_x := 10\<rparr>\<rparr>)
         (Rect (- 12) 285 44 30)
   \<and> collision_counter (current_state (fst (step
         ((env_init (\<lambda>_. (44, 30)))\<lparr>current_state := initial_state\<lparr>car_pos_x := 10\<rparr>\<rparr>)
         \<lparr>engine = 0, wheels = 0\<rparr>))) = 1
   \<and> car_pos_x (current_state (fst (step
         ((env_init (\<lambda>_. (44, 30)))\<lparr>current_state := initial_state\<lparr>car_pos_x := 10\<rparr>\<rparr>)
         \<lparr>engine = 0, wheels = 0\<rparr>))) = 10
   \<and> \<not> episode_finished (env_init (\<lambda>_. (44, 30)))
   \<and> car_pos_x (current_state (fst (step (env_init (\<lambda>_. (44, 30))) \<lparr>engine = 1, wheels = 0\<rparr>)))
       = 100.025"
proof -
  let ?w = "(env_init (\<lambda>_. (44, 30)))\<lparr>current_state := initial_state\<lparr>car_pos_x := 10\<rparr>\<rparr>"
  let ?n = "\<lparr>engine = 0, wheels = 0\<rparr>"
  let ?s = "env_init (\<lambda>_. (44, 30))"
  let ?g = "\<lparr>engine = 1, wheels = 0\<rparr>"
  have cw: "current_state (after_controls ?w ?n) = initial_state\<lparr>car_pos_x := 10\<rparr>"
    by (simp add: after_controls_def env_init_def initial_state_def Let_def MIN_TURN_SPEED_def)
  have rw: "candidate_rect (after_controls ?w ?n) = Rect (- 12) 285 44 30"
    unfolding candidate_rect_def moved_car_rect_def new_car_pos_def Let_def cw
    by (simp add: after_controls_def env_init_def initial_state_def Let_def radians_0
        get_rect_center_def set_centerx_def set_centery_def r_center_def c_half_def Rect_def
        py_int_def CAR_SIZE_def)
  have ow: "overlaps ?w (Rect (- 12) 285 44 30)"
    by (simp add: overlaps_def outside_arena_def r_left_def Rect_def)
  have fw: "\<not> episode_finished ?w" by (simp add: env_init_def)
  have w: "collision_counter (current_state (fst (step ?w ?n))) = 1
      \<and> car_pos_x (current_state (fst (step ?w ?n))) = 10"
    using collision_discards_move[OF fw, of ?n] ow unfolding Let_def rw
    by (simp add: env_init_def initial_state_def)
  have cs: "current_state (after_controls ?s ?g) = initial_state\<lparr>car_speed := 0.025\<rparr>"
    by (simp add: after_controls_def env_init_def initial_state_def Let_def MIN_TURN_SPEED_def
        ACCELERATION_def MAX_SPEED_def)
  have ps: "new_car_pos (after_controls ?s ?g) = (100.025, 300)"
    unfolding new_car_pos_def Let_def cs by (simp add: initial_state_def radians_0)
  have rs: "candidate_rect (after_controls ?s ?g) = Rect 78 285 44 30"
    unfolding candidate_rect_def moved_car_rect_def ps Let_def cs
    by (simp add: after_controls_def env_init_def initial_state_def Let_def
        get_rect_center_def set_centerx_def set_centery_def r_center_def c_half_def Rect_def
        py_int_def CAR_SIZE_def)
  have os: "\<not> overlaps ?s (Rect 78 285 44 30)"
    by (simp add: overlaps_def outside_arena_def barriers_value colliderect_def env_init_def
        r_left_def r_right_def r_top_def r_bottom_def Rect_def WIDTH_def HEIGHT_def)
  have fs: "\<not> episode_finished ?s" by (simp add: env_init_def)
  have s: "car_pos_x (current_state (fst (step ?s ?g))) = 100.025"
    using collision_discards_move[OF fs, of ?g] os unfolding Let_def rs cs ps
    by (simp add: initial_state_def)
  from fw ow w fs s show ?thesis by simp
qed


subsection \<open>The reward of a step\<close>

lemma fl_add_zero_right: "fl_add x (Fin 0) = x"
  by (cases x) simp_all

lemma fl_less_asym: "fl_less x y \<Longrightarrow> \<not> fl_less y x"
  by (cases x; cases y) simp_all

lemma fl_less_irrefl: "\<not> fl_less x x"
  by (cases x) simp_all

lemma calculate_reward_value:
  "snd (calculate_reward e st) =
     spec_reward (obs_collision st) (best_distance e) (obs_distance_to_parking st)
       (is_parked_correctly e)"
proof -
  have p: "is_parked_correctly (e\<lparr>best_distance := d\<rparr>) = is_parked_correctly e" for d
    by (rule is_parked_correctly_cong) simp_all
  show ?thesis
    by (simp add: calculate_reward_def spec_reward_def collision_penalty_def shaping_term_def
        parking_bonus_def Let_def fl_sub_def fl_add_zero_right p)
qed

lemma calculate_reward_best:
  "best_distance (fst (calculate_reward e st)) =
     (if fl_less (obs_distance_to_parking st) (best_distance e)
      then obs_distance_to_parking st else best_distance e)"
  by (simp add: calculate_reward_def Let_def)

lemma calculate_reward_fitness:
  "current_fitness (fst (calculate_reward e st)) =
     fl_add (current_fitness e) (snd (calculate_reward e st))"
  by (simp add: calculate_reward_def Let_def)

lemma check_collisions_frame:
  "best_distance (fst (check_collisions e r)) = best_distance e"
  "current_fitness (fst (check_collisions e r)) = current_fitness e"
  "episode_finished (fst (check_collisions e r)) = episode_finished e"
  "current_step (fst (check_collisions e r)) = current_step e"
  unfolding check_collisions_def Let_def by simp_all

lemma update_position_frame:
  "best_distance (update_position e) = best_distance e"
  "current_fitness (update_position e) = current_fitness e"
  "episode_finished (update_position e) = episode_finished e"
  "current_step (update_position e) = current_step e"
  unfolding update_position_def Let_def split_beta
  by (simp_all add: check_collisions_frame)

lemma after_controls_rest:
  "best_distance (after_controls e a) = best_distance e"
  "current_fitness (after_controls e a) = current_fitness e"
  "episode_finished (after_controls e a) = episode_finished e"
  "current_step (after_controls e a) = current_step e"
  unfolding after_controls_def Let_def by simp_all

lemma apply_action_frame:
  "best_distance (apply_action e a) = best_distance e"
  "current_fitness (apply_action e a) = current_fitness e"
  "episode_finished (apply_action e a) = episode_finished e"
  "current_step (apply_action e a) = current_step e"
  unfolding apply_action_def by (simp_all add: update_position_frame after_controls_rest)

lemma apply_action_rect:
  "rotated_collision_rect (apply_action e a) = Some (candidate_rect (after_controls e a))"
  by (simp add: apply_action_def update_position_rect)

lemma step_reward_facts:
  assumes "\<not> episode_finished e"
  shows "\<exists>e' ob r done rc.
     step e a = (e', ob, r, done, [])
     \<and> rotated_collision_rect e' = Some rc
     \<and> obs_distance_to_parking ob = Fin (average_corner_distance rc)
     \<and> r = spec_reward (0 < collision_counter (current_state e')) (best_distance e)
              (obs_distance_to_parking ob) (is_parked_correctly e')
     \<and> best_distance e' =
         (if fl_less (obs_distance_to_parking ob) (best_distance e)
          then obs_distance_to_parking ob else best_distance e)
     \<and> \<not> fl_less (best_distance e) (best_distance e')
     \<and> current_fitness e' = fl_add (current_fitness e) r"
proof -
  define e2 where "e2 = (apply_action e a)\<lparr>current_step := current_step (apply_action e a) + 1\<rparr>"
  define e3 where "e3 = update_sensors e2"
  define st where "st = get_state e3"
  define e4 where "e4 = fst (calculate_reward e3 st)"
  define e5 where "e5 = fst (check_episode_end e4 st)"
  define rc where "rc = candidate_rect (after_controls e a)"
  have s: "step e a = (e5, st, snd (calculate_reward e3 st), snd (check_episode_end e4 st), [])"
    unfolding step_running[OF assms] Let_def e5_def e4_def st_def e3_def e2_def ..
  have rect2: "rotated_collision_rect e2 = Some rc"
    by (simp add: e2_def rc_def apply_action_rect)
  then have rect3: "rotated_collision_rect e3 = Some rc"
    by (simp add: e3_def update_sensors_frame)
  have rect5: "rotated_collision_rect e5 = Some rc"
    by (simp add: e5_def e4_def check_episode_end_frame calculate_reward_frame rect3)
  have cs5: "current_state e5 = current_state e3"
    by (simp add: e5_def e4_def check_episode_end_frame calculate_reward_frame)
  have dist: "obs_distance_to_parking st = Fin (average_corner_distance rc)"
    unfolding st_def e3_def using update_sensors_Some[OF rect2] by (simp add: get_state_def)
  have coll: "obs_collision st = (0 < collision_counter (current_state e5))"
    by (simp add: st_def get_state_def cs5)
  have best3: "best_distance e3 = best_distance e"
    by (simp add: e3_def e2_def update_sensors_frame apply_action_frame)
  have fit3: "current_fitness e3 = current_fitness e"
    by (simp add: e3_def e2_def update_sensors_frame apply_action_frame)
  have parked: "is_parked_correctly e3 = is_parked_correctly e5"
    by (rule is_parked_correctly_cong) (simp_all add: rect3 rect5 cs5)
  have r: "snd (calculate_reward e3 st) =
      spec_reward (0 < collision_counter (current_state e5)) (best_distance e)
        (obs_distance_to_parking st) (is_parked_correctly e5)"
    by (simp add: calculate_reward_value coll best3 parked)
  have best5: "best_distance e5 =
      (if fl_less (obs_distance_to_parking st) (best_distance e)
       then obs_distance_to_parking st else best_distance e)"
    by (simp add: e5_def e4_def check_episode_end_frame calculate_reward_best best3)
  have mono: "\<not> fl_less (best_distance e) (best_distance e5)"
    unfolding best5 by (simp add: fl_less_asym fl_less_irrefl)
  have fit5: "current_fitness e5 = fl_add (current_fitness e) (snd (calculate_reward e3 st))"
    by (simp add: e5_def e4_def check_episode_end_frame calculate_reward_fitness fit3)
  from s rect5 dist r best5 mono fit5 show ?thesis by blast
qed


text \<open>
  C1. A step of a running episode returns as reward the sum of: - 100 if the collision
  counter is positive after the move; ten times (best distance so far - current average
  distance) if the current average distance is strictly below the best so far; 1000 if
  the car is parked correctly; and - 0.1. The current average distance is the one the
  step reports, computed from the rectangle of the car. The best distance becomes the
  current one exactly when that is strictly below it, so it never increases, and the
  reward is added to the fitness of the episode.
\<close>

theorem step_reward_is_sum_of_terms:
  assumes "\<not> episode_finished e"
  shows "\<exists>e' ob r done rc.
     step e a = (e', ob, r, done, [])
     \<and> rotated_collision_rect e' = Some rc
     \<and> obs_distance_to_parking ob = Fin (average_corner_distance rc)
     \<and> r = spec_reward (0 < collision_counter (current_state e')) (best_distance e)
              (obs_distance_to_parking ob) (is_parked_correctly e')
     \<and> best_distance e' =
         (if fl_less (obs_distance_to_parking ob) (best_distance e)
          then obs_distance_to_parking ob else best_distance e)
     \<and> \<not> fl_less (best_distance e) (best_distance e')
     \<and> current_fitness e' = fl_add (current_fitness e) r"
  using assms by (rule step_reward_facts)

text \<open>
  From the start position with the best distance already at 0 and no action, nothing
  collides, the distance does not improve and the car is not parked: the reward is the
  time penalty alone.
\<close>

lemma average_corner_distance_nonneg: "0 \<le> average_corner_distance r"
  by (simp add: average_corner_distance_def distance_def)

theorem step_reward_is_sum_of_terms_witness:
  "\<not> episode_finished ((env_init (\<lambda>_. (44, 30)))\<lparr>best_distance := Fin 0\<rparr>)
   \<and> fst (snd (snd (step ((env_init (\<lambda>_. (44, 30)))\<lparr>best_distance := Fin 0\<rparr>)
                    \<lparr>engine = 0, wheels = 0\<rparr>))) = Fin (- 0.1)"
proof -
  let ?e = "(env_init (\<lambda>_. (44, 30)))\<lparr>best_distance := Fin 0\<rparr>"
  let ?a = "\<lparr>engine = 0, wheels = 0\<rparr>"
  have f: "\<not> episode_finished ?e" by (simp add: env_init_def)
  from step_reward_is_sum_of_terms[OF f, of ?a] obtain e' ob r dn rc where
    s: "step ?e ?a = (e', ob, r, dn, [])"
    and rc: "rotated_collision_rect e' = Some rc"
    and d: "obs_distance_to_parking ob = Fin (average_corner_distance rc)"
    and r: "r = spec_reward (0 < collision_counter (current_state e')) (best_distance ?e)
              (obs_distance_to_parking ob) (is_parked_correctly e')"
    by blast
  have e': "e' = fst (step ?e ?a)" by (simp add: s)
  have cc: "current_state (after_controls ?e ?a) = initial_state"
    by (simp add: after_controls_def env_init_def initial_state_def Let_def MIN_TURN_SPEED_def)
  have cr: "candidate_rect (after_controls ?e ?a) = Rect 78 285 44 30"
    unfolding candidate_rect_def moved_car_rect_def new_car_pos_def Let_def cc
    by (simp add: after_controls_def env_init_def initial_state_def Let_def
        get_rect_center_def set_centerx_def set_centery_def r_center_def c_half_def Rect_def
        py_int_def CAR_SIZE_def)
  have no: "\<not> overlaps ?e (Rect 78 285 44 30)"
    by (simp add: overlaps_def outside_arena_def barriers_value colliderect_def env_init_def
        r_left_def r_right_def r_top_def r_bottom_def Rect_def WIDTH_def HEIGHT_def)
  have o: "overlaps (after_controls ?e ?a) x = overlaps ?e x" for x
    by (rule overlaps_cong) (simp add: after_controls_frame)
  have cs: "current_state e' = initial_state"
    unfolding e' step_current_state[OF f] apply_action_def update_position_state cc cr o
    using no by (simp add: initial_state_def)
  have "rotated_collision_rect e' = Some (Rect 78 285 44 30)"
    unfolding e' step_current_state[OF f] apply_action_rect cr ..
  with rc have rc': "rc = Rect 78 285 44 30" by simp
  have np: "\<not> is_parked_correctly e'"
    using is_parked_correctly_Some[OF rc, unfolded rc']
    by (simp add: rect_truthy_def fully_contained_def parking_spot_value Rect_def r_left_def)
  have "r = Fin (- 0.1)"
    unfolding r d
    using average_corner_distance_nonneg[of rc] np
    by (simp add: cs initial_state_def spec_reward_def collision_penalty_def shaping_term_def
        parking_bonus_def not_less)
  with f s show ?thesis by simp
qed


subsection \<open>The first step of an episode\<close>

lemma reset_facts:
  "best_distance (fst (reset e)) = PInf"
  "current_fitness (fst (reset e)) = Fin 0"
  "\<not> episode_finished (fst (reset e))"
  "rotated_collision_rect (fst (reset e)) = rotated_collision_rect e"
  "current_state (fst (reset e)) = initial_state"
  "snd (reset e) = get_state (fst (reset e))"
  by (simp_all add: reset_def Let_def update_sensors_frame)

lemma reset_sensors: "length (obs_sensors (snd (reset e))) = 8"
  by (simp add: reset_def Let_def get_state_def update_sensors_length)

lemma reset_average_fresh:
  assumes "rotated_collision_rect e = None"
  shows "average_distance (fst (reset e)) = average_distance e"
  unfolding reset_def Let_def fst_conv
  by (subst update_sensors_None) (simp_all add: assms)

lemma reset_average_stale:
  assumes "rotated_collision_rect e = Some r"
  shows "average_distance (fst (reset e)) = Fin (average_corner_distance r)"
  unfolding reset_def Let_def fst_conv
  by (rule update_sensors_Some) (simp add: assms)

lemma shaping_from_infinity: "shaping_term PInf (Fin d) = PInf"
  by (simp add: shaping_term_def fl_sub_def inf_times_def)

lemma spec_reward_from_infinity: "spec_reward c PInf (Fin d) p = PInf"
  by (simp add: spec_reward_def shaping_from_infinity collision_penalty_def parking_bonus_def)

lemma shaping_cases: "(\<exists>x. shaping_term best (Fin d) = Fin x) \<or> shaping_term best (Fin d) = PInf"
  by (cases best) (simp_all add: shaping_term_def fl_sub_def inf_times_def)

lemma spec_reward_cases:
  "(\<exists>x. spec_reward c best (Fin d) p = Fin x) \<or> spec_reward c best (Fin d) p = PInf"
  using shaping_cases[of best d]
  by (auto simp: spec_reward_def collision_penalty_def parking_bonus_def)

lemma step_reward_cases:
  "(\<exists>x. fst (snd (snd (step e a))) = Fin x) \<or> fst (snd (snd (step e a))) = PInf"
proof (cases "episode_finished e")
  case True
  then show ?thesis by (simp add: step_finished)
next
  case False
  from step_reward_facts[OF False, of a] obtain e' ob r dn rc where
    "step e a = (e', ob, r, dn, [])"
    "obs_distance_to_parking ob = Fin (average_corner_distance rc)"
    "r = spec_reward (0 < collision_counter (current_state e')) (best_distance e)
              (obs_distance_to_parking ob) (is_parked_correctly e')"
    by blast
  then show ?thesis
    using spec_reward_cases[of "0 < collision_counter (current_state e')" "best_distance e"
        "average_corner_distance rc" "is_parked_correctly e'"]
    by simp
qed

lemma fl_add_PInf: "(\<exists>x. r = Fin x) \<or> r = PInf \<Longrightarrow> fl_add PInf r = PInf"
  by auto

lemma step_fitness:
  "current_fitness (fst (step e a)) =
     (if episode_finished e then current_fitness e
      else fl_add (current_fitness e) (fst (snd (snd (step e a)))))"
proof (cases "episode_finished e")
  case True
  then show ?thesis by (simp add: step_finished)
next
  case False
  from step_reward_facts[OF False, of a] obtain e' ob r dn where
    "step e a = (e', ob, r, dn, [])" "current_fitness e' = fl_add (current_fitness e) r"
    by blast
  with False show ?thesis by simp
qed

lemma step_keeps_infinite_fitness:
  assumes "current_fitness e = PInf"
  shows "current_fitness (fst (step e a)) = PInf"
  unfolding step_fitness assms
  using fl_add_PInf[OF step_reward_cases[of e a]] by simp

lemma run_steps_keeps_infinite_fitness:
  "current_fitness e = PInf \<Longrightarrow> current_fitness (run_steps e as) = PInf"
  by (induction as arbitrary: e) (simp_all add: step_keeps_infinite_fitness)

lemma first_step_facts:
  assumes "\<not> episode_finished e" and "best_distance e = PInf"
  shows "\<exists>e' ob dn d. step e a = (e', ob, PInf, dn, [])
     \<and> obs_distance_to_parking ob = Fin d
     \<and> current_fitness e' = fl_add (current_fitness e) PInf
     \<and> length (obs_sensors ob) = 8"
proof -
  from step_reward_facts[OF assms(1), of a] obtain e' ob r dn rc where
    s: "step e a = (e', ob, r, dn, [])"
    and d: "obs_distance_to_parking ob = Fin (average_corner_distance rc)"
    and r: "r = spec_reward (0 < collision_counter (current_state e')) (best_distance e)
              (obs_distance_to_parking ob) (is_parked_correctly e')"
    and f: "current_fitness e' = fl_add (current_fitness e) r"
    by blast
  have r': "r = PInf" unfolding r d assms(2) by (rule spec_reward_from_infinity)
  have "ob = fst (snd (step e a))" by (simp add: s)
  then have "length (obs_sensors ob) = 8"
    unfolding step_running[OF assms(1)] Let_def
    by (simp add: get_state_def update_sensors_length)
  with s d f r' show ?thesis by blast
qed

lemma running_step_sensors:
  assumes "\<not> episode_finished e"
  shows "length (obs_sensors (fst (snd (step e a)))) = 8"
  unfolding step_running[OF assms] Let_def
  by (simp add: get_state_def update_sensors_length)

subsection \<open>The evaluation of a genome\<close>

lemma make_decision_ok:
  assumes "length (engine_coefficients b) = 9" and "length (wheel_coefficients b) = 9"
    and "length sensors = 8"
  shows "\<exists>a. make_decision b sensors = Inr a"
  using make_decision_spec[OF assms] by simp

lemma evaluate_loop_infinite:
  assumes "length (engine_coefficients b) = 9" and "length (wheel_coefficients b) = 9"
  shows "obs_collision st \<or> episode_finished e \<or> length (obs_sensors st) = 8 \<Longrightarrow>
         \<exists>e'. evaluate_loop n b e st PInf = Inr (e', PInf)"
proof (induction n arbitrary: e st)
  case 0
  then show ?case by simp
next
  case (Suc n)
  show ?case
  proof (cases "obs_collision st \<or> episode_finished e")
    case True
    then show ?thesis by auto
  next
    case False
    with Suc.prems have len: "length (map real_of_int (obs_sensors st)) = 8" by simp
    from make_decision_ok[OF assms len] obtain a where
      a: "make_decision b (map real_of_int (obs_sensors st)) = Inr a" by blast
    obtain e' st' r dn aux where s: "step e a = (e', st', r, dn, aux)"
      by (cases "step e a") auto
    from False have run: "\<not> episode_finished e" by simp
    have "st' = fst (snd (step e a))" by (simp add: s)
    then have "length (obs_sensors st') = 8" using running_step_sensors[OF run, of a] by simp
    from Suc.IH[of st' e'] this obtain e'' where
      ih: "evaluate_loop n b e' st' PInf = Inr (e'', PInf)" by blast
    have "r = fst (snd (snd (step e a)))" by (simp add: s)
    then have "fl_add PInf r = PInf" using fl_add_PInf[OF step_reward_cases[of e a]] by simp
    with False a s ih show ?thesis by simp
  qed
qed

lemma evaluate_loop_iteration:
  assumes "\<not> obs_collision st" and "\<not> episode_finished e"
    and "make_decision b (map real_of_int (obs_sensors st)) = Inr a"
    and "step e a = (e', st', r, dn, aux)"
  shows "evaluate_loop (Suc n) b e st t = evaluate_loop n b e' st' (fl_add t r)"
  using assms by simp

lemma evaluate_genome_infinite:
  assumes "length g = 180" and "set g \<subseteq> {0, 1}"
  shows "\<exists>e'. evaluate_genome e g = Inr (e', PInf)"
proof -
  from brain_init_ok[OF assms(1)] obtain ec wc where
    ec: "length ec = 9" and wc: "length wc = 9"
    and b: "brain_init g = Inr \<lparr>genome = g, engine_coefficients = ec, wheel_coefficients = wc\<rparr>"
    by blast
  let ?b = "\<lparr>genome = g, engine_coefficients = ec, wheel_coefficients = wc\<rparr>"
  have lb: "length (engine_coefficients ?b) = 9" "length (wheel_coefficients ?b) = 9"
    using ec wc by simp_all
  let ?e0 = "fst (reset e)" and ?st = "snd (reset e)"
  have nc: "\<not> obs_collision ?st"
    by (simp add: reset_facts get_state_def initial_state_def)
  have len: "length (map real_of_int (obs_sensors ?st)) = 8" by (simp add: reset_sensors)
  from make_decision_ok[OF lb len] obtain a where
    a: "make_decision ?b (map real_of_int (obs_sensors ?st)) = Inr a" by blast
  from first_step_facts[OF reset_facts(3) reset_facts(1), of e a] obtain e1 ob dn where
    s: "step ?e0 a = (e1, ob, PInf, dn, [])" and l: "length (obs_sensors ob) = 8"
    by blast
  from evaluate_loop_infinite[OF lb, of ob e1 999] l obtain e2 where
    rest: "evaluate_loop 999 ?b e1 ob PInf = Inr (e2, PInf)" by blast
  have n: "(1000::nat) = Suc 999" by simp
  have "evaluate_loop 1000 ?b ?e0 ?st (Fin 0) = Inr (e2, PInf)"
    unfolding n evaluate_loop_iteration[OF nc reset_facts(3) a s] using rest by simp
  then show ?thesis
    by (simp add: evaluate_genome_def b Let_def split_beta)
qed


text \<open>
  C2, as the claim states it, fails in one part: \<^verbatim>\<open>reset\<close> does not set the reported
  average distance to infinity. It never assigns it; it recomputes it from the collision
  rectangle when one exists. After one step and a reset, as the trainer resets between
  genomes, the reported distance is the finite distance of the rectangle of that step.
\<close>

theorem reset_keeps_finite_distance_counterexample:
  "average_distance
     (fst (reset (fst (step (fst (reset (env_init (\<lambda>_. (44, 30))))) \<lparr>engine = 0, wheels = 0\<rparr>))))
     = Fin (average_corner_distance (Rect 78 285 44 30))
   \<and> average_distance
     (fst (reset (fst (step (fst (reset (env_init (\<lambda>_. (44, 30))))) \<lparr>engine = 0, wheels = 0\<rparr>))))
     \<noteq> PInf"
proof -
  let ?e0 = "fst (reset (env_init (\<lambda>_. (44, 30))))"
  let ?a = "\<lparr>engine = 0, wheels = 0\<rparr>"
  have cc: "current_state (after_controls ?e0 ?a) = initial_state"
    by (simp add: after_controls_def reset_facts initial_state_def Let_def MIN_TURN_SPEED_def)
  have surf: "rectangle_surf (after_controls ?e0 ?a) = (\<lambda>_. (44, 30))"
    and car: "car_rect (after_controls ?e0 ?a) = Rect 0 0 10 10"
    by (simp_all add: after_controls_def reset_def Let_def update_sensors_def
        update_parking_distance_def env_init_def CAR_SIZE_def)
  have cr: "candidate_rect (after_controls ?e0 ?a) = Rect 78 285 44 30"
    unfolding candidate_rect_def moved_car_rect_def new_car_pos_def Let_def cc surf car
    by (simp add: initial_state_def get_rect_center_def set_centerx_def set_centery_def
        r_center_def c_half_def Rect_def py_int_def)
  have "rotated_collision_rect (fst (step ?e0 ?a)) = Some (Rect 78 285 44 30)"
    unfolding step_current_state[OF reset_facts(3)] apply_action_rect cr ..
  from reset_average_stale[OF this] show ?thesis by simp
qed

text \<open>
  C2, amended. \<^verbatim>\<open>reset\<close> sets the best distance to infinity; after the reset of a freshly
  constructed environment there is no collision rectangle yet and the reported average
  distance is infinite. On the first step after a reset, for every action, the reported
  average distance is finite, the shaping term is infinite, the reward is infinite and so
  is the fitness, which stays infinite through every further step. The evaluation of
  every genome of 180 binary values therefore returns an infinite fitness.
\<close>

theorem first_step_makes_fitness_infinite:
  "\<exists>e1 ob dn d.
     best_distance (fst (reset e)) = PInf
     \<and> rotated_collision_rect (fst (reset (env_init surf))) = None
     \<and> average_distance (fst (reset (env_init surf))) = PInf
     \<and> step (fst (reset e)) a = (e1, ob, PInf, dn, [])
     \<and> obs_distance_to_parking ob = Fin d
     \<and> shaping_term (best_distance (fst (reset e))) (obs_distance_to_parking ob) = PInf
     \<and> current_fitness e1 = PInf
     \<and> (\<forall>as. current_fitness (run_steps e1 as) = PInf)
     \<and> (length g = 180 \<and> set g \<subseteq> {0, 1} \<longrightarrow> (\<exists>e'. evaluate_genome e g = Inr (e', PInf)))"
proof -
  from first_step_facts[OF reset_facts(3) reset_facts(1), of e a] obtain e1 ob dn d where
    s: "step (fst (reset e)) a = (e1, ob, PInf, dn, [])"
    and d: "obs_distance_to_parking ob = Fin d"
    and f: "current_fitness e1 = fl_add (current_fitness (fst (reset e))) PInf"
    by blast
  have f1: "current_fitness e1 = PInf" unfolding f reset_facts by simp
  have norect: "rotated_collision_rect (fst (reset (env_init surf))) = None"
    unfolding reset_facts by (simp add: env_init_def)
  have fresh: "average_distance (fst (reset (env_init surf))) = PInf"
    by (subst reset_average_fresh) (simp_all add: env_init_def)
  have sh: "shaping_term (best_distance (fst (reset e))) (obs_distance_to_parking ob) = PInf"
    unfolding reset_facts d by (rule shaping_from_infinity)
  have runs: "\<forall>as. current_fitness (run_steps e1 as) = PInf"
    using run_steps_keeps_infinite_fitness[OF f1] by blast
  have ev: "length g = 180 \<and> set g \<subseteq> {0, 1} \<longrightarrow> (\<exists>e'. evaluate_genome e g = Inr (e', PInf))"
    using evaluate_genome_infinite[of g e] by blast
  from s d f1 norect fresh sh runs ev reset_facts(1)[of e]
  show ?thesis by blast
qed

theorem first_step_makes_fitness_infinite_witness:
  "length (replicate 180 (0::int)) = 180 \<and> set (replicate 180 (0::int)) \<subseteq> {0, 1}
   \<and> (\<exists>e'. evaluate_genome (env_init (\<lambda>_. (44, 30))) (replicate 180 0) = Inr (e', PInf))
   \<and> fst (snd (snd (step (fst (reset (env_init (\<lambda>_. (44, 30))))) \<lparr>engine = 1, wheels = 0\<rparr>)))
       = PInf"
proof -
  let ?e = "env_init (\<lambda>_. (44, 30))"
  from first_step_makes_fitness_infinite[of ?e "\<lambda>_. (44, 30)" "\<lparr>engine = 1, wheels = 0\<rparr>"
      "replicate 180 0"]
  have a: "\<exists>e'. evaluate_genome ?e (replicate 180 0) = Inr (e', PInf)"
    and b: "fst (snd (snd (step (fst (reset ?e)) \<lparr>engine = 1, wheels = 0\<rparr>))) = PInf"
    by auto
  from a b show ?thesis by simp
qed


section \<open>Properties of the evolution engine\<close>

subsection \<open>Normalisation\<close>

lemma map_result_total:
  "(\<And>x. x \<in> set xs \<Longrightarrow> f x = Inr (h x)) \<Longrightarrow> map_result f xs = Inr (map h xs)"
  by (induction xs) simp_all











subsection \<open>The elite\<close>




lemma elite_indices_bound: "set (elite_indices s fs) \<subseteq> {..<length fs}"
proof -
  have "set (sort_key (\<lambda>i. - (fs ! i)) [0..<length fs]) = {..<length fs}" by auto
  with set_take_subset[of "elite_size s" "sort_key (\<lambda>i. - (fs ! i)) [0..<length fs]"]
  show ?thesis by (simp add: elite_indices_def)
qed

lemma elite_genomes:
  assumes "length fs = length (population s)"
  shows "map_result (py_index (population s)) (elite_indices s fs)
           = Inr (map (\<lambda>i. population s ! i) (elite_indices s fs))"
proof (rule map_result_total)
  fix i assume "i \<in> set (elite_indices s fs)"
  with elite_indices_bound[of s fs] assms have "i < length (population s)" by auto
  then show "py_index (population s) i = Inr (population s ! i)" by (simp add: py_index_def)
qed


subsection \<open>Selection, crossover and the loop\<close>

lemma remove_nth_facts:
  assumes "j < length xs"
  shows "length (remove_nth j xs) = length xs - 1" and "set (remove_nth j xs) \<subseteq> set xs"
proof -
  show "length (remove_nth j xs) = length xs - 1"
    using assms by (simp add: remove_nth_def min_def)
  show "set (remove_nth j xs) \<subseteq> set xs"
    using set_take_subset[of j xs] set_drop_subset[of "Suc j" xs] by (auto simp: remove_nth_def)
qed

lemma randbelow_less: "0 < n \<Longrightarrow> fst (randbelow n g) < n"
  by (simp add: randbelow_def rng_next_def)

lemma sample_loop_facts:
  "k \<le> length pool \<Longrightarrow>
   length (fst (sample_loop pool k g)) = k \<and> set (fst (sample_loop pool k g)) \<subseteq> set pool"
proof (induction k arbitrary: pool g)
  case 0
  then show ?case by simp
next
  case (Suc k)
  let ?j = "fst (randbelow (length pool) g)" and ?g1 = "snd (randbelow (length pool) g)"
  from Suc.prems have "0 < length pool" by arith
  then have j: "?j < length pool" by (rule randbelow_less)
  from remove_nth_facts[OF j] Suc.prems
  have "k \<le> length (remove_nth ?j pool)" and sub: "set (remove_nth ?j pool) \<subseteq> set pool"
    by simp_all
  from Suc.IH[OF this(1), of ?g1] sub j show ?case
    by (auto simp: split_beta Let_def)
qed

lemma random_sample_ok:
  assumes "k \<le> length xs"
  shows "\<exists>ys g'. random_sample xs k g = Inr (ys, g') \<and> length ys = k \<and> set ys \<subseteq> set xs"
proof -
  obtain ys g' where s: "sample_loop xs k g = (ys, g')" by (cases "sample_loop xs k g")
  with sample_loop_facts[OF assms, of g] assms show ?thesis
    by (simp add: random_sample_def)
qed






lemma fill_population_full:
  "population_size s \<le> length new_population \<Longrightarrow>
   fill_population s nf new_population g = Inr (new_population, g)"
  by (subst fill_population.simps) simp



subsection \<open>One generation\<close>













subsection \<open>The invariant of the engine\<close>

text \<open>
  The constructor builds a population of the configured size whose genomes all have the
  configured length, and a generation keeps both: the conditions of the theorems above hold
  in every generation of an engine whose sizes allow a tournament and a crossover.
\<close>

lemma random_bits_facts:
  "length (fst (random_bits n g)) = n \<and> set (fst (random_bits n g)) \<subseteq> {0, 1}"
proof (induction n arbitrary: g)
  case 0
  then show ?case by simp
next
  case (Suc n)
  have "fst (randint01 g) \<in> {0, 1}"
    by (auto simp: randint01_def randbelow_def rng_next_def)
  with Suc[of "snd (randint01 g)"] show ?case by (auto simp: split_beta)
qed

lemma initialize_population_facts:
  "length (fst (initialize_population n len g)) = n
   \<and> (\<forall>p \<in> set (fst (initialize_population n len g)). length p = len)"
proof (induction n arbitrary: g)
  case 0
  then show ?case by simp
next
  case (Suc n)
  from Suc[of "snd (random_bits len g)"] random_bits_facts[of len g]
  show ?case by (auto simp: split_beta)
qed

lemma ga_init_invariant:
  "length (population (fst (ga_init n len mr es ts g))) = population_size (fst (ga_init n len mr es ts g))
   \<and> (\<forall>p \<in> set (population (fst (ga_init n len mr es ts g))).
         length p = genome_length (fst (ga_init n len mr es ts g)))"
  using initialize_population_facts[of n len g] by (simp add: ga_init_def split_beta)

lemma random_bits_zero: "random_bits n (\<lambda>_. 0) = (replicate n 0, \<lambda>_. 0)"
  by (induction n) (simp_all add: randint01_def randbelow_def rng_next_def)

lemma initialize_population_zero:
  "initialize_population n len (\<lambda>_. 0) = (replicate n (replicate len 0), \<lambda>_. 0)"
  by (induction n) (simp_all add: random_bits_zero)

lemma scenario_engine_constructed: "ga_init 4 180 0.01 1 2 (\<lambda>_. 0) = (scenario_engine, \<lambda>_. 0)"
  by (simp add: ga_init_def initialize_population_zero scenario_engine_def numeral_eq_Suc)

lemma flip_neighbour_length: "length (fst (flip_neighbour ex j m g)) = length m"
  by (simp add: flip_neighbour_def flip_def split_beta)

lemma mutate_loop_length: "length (fst (mutate_loop rate is m g)) = length m"
proof (induction "is" arbitrary: m g)
  case Nil
  then show ?case by simp
next
  case (Cons i rest)
  show ?case
    by (simp add: Let_def split_beta Cons.IH flip_neighbour_length flip_def)
qed

lemma mutate_length: "length (fst (mutate s p g)) = length p"
  by (simp add: mutate_def mutate_loop_length)

lemma crossover_lengths:
  assumes "crossover p1 p2 g = Inr ((c1, c2), g')"
  shows "length c1 = length p1 \<and> length c2 = length p1"
proof -
  from assms have eq: "length p1 = length p2" and two: "2 \<le> length p1"
    by (auto simp: crossover_def random_sample_def split: if_splits)
  from random_sample_ok[of 2 "[0..<length p1]" g] two obtain pts g1 where
    s: "random_sample [0..<length p1] 2 g = Inr (pts, g1)" and l: "length pts = 2"
    and sub: "set pts \<subseteq> set [0..<length p1]" by auto
  from l have "pts ! 0 \<in> set pts" "pts ! 1 \<in> set pts" by simp_all
  with sub have b: "pts ! 0 < length p1" "pts ! 1 < length p1" by auto
  define a where "a = min (pts ! 0) (pts ! 1)"
  define b where "b = max (pts ! 0) (pts ! 1)"
  have ab: "a \<le> b" "b \<le> length p1" using b by (simp_all add: a_def b_def)
  from assms s eq have c: "c1 = py_slice p1 0 a @ py_slice p2 a b @ drop b p1"
    "c2 = py_slice p2 0 a @ py_slice p1 a b @ drop b p2"
    by (simp_all add: crossover_def Let_def a_def b_def)
  have "length (py_slice p1 0 a) = a" "length (py_slice p2 0 a) = a"
    "length (py_slice p2 a b) = b - a" "length (py_slice p1 a b) = b - a"
    "length (drop b p1) = length p1 - b" "length (drop b p2) = length p1 - b"
    using ab eq by (simp_all add: py_slice_def)
  with ab show ?thesis unfolding c by simp
qed

lemma select_parent_member:
  assumes "select_parent s nf g = Inr (p, g')"
  shows "p \<in> set (population s)"
  using assms
  by (auto simp: select_parent_def py_index_def split: sum.splits prod.splits if_splits)

lemma fill_population_result:
  assumes "\<forall>p \<in> set (population s). length p = L"
  shows "\<forall>p \<in> set new_population. length p = L \<Longrightarrow>
         length new_population \<le> population_size s \<Longrightarrow>
         fill_population s nf new_population g = Inr (np, g') \<Longrightarrow>
         (\<forall>p \<in> set np. length p = L) \<and> length np = population_size s"
proof (induction "population_size s - length new_population" arbitrary: new_population g
    rule: less_induct)
  case less
  show ?case
  proof (cases "length new_population < population_size s")
    case False
    with less.prems(3) have "np = new_population"
      by (simp add: fill_population_full)
    with less.prems(1,2) False show ?thesis by simp
  next
    case True
    from less.prems(3) True obtain p1 g1 where p1: "select_parent s nf g = Inr (p1, g1)"
      by (subst (asm) fill_population.simps) (auto split: sum.splits)
    from less.prems(3) True p1 obtain p2 g2 where p2: "select_parent s nf g1 = Inr (p2, g2)"
      by (subst (asm) fill_population.simps) (auto split: sum.splits)
    from less.prems(3) True p1 p2 obtain c1 c2 g3 where
      c: "crossover p1 p2 g2 = Inr ((c1, c2), g3)"
      by (subst (asm) fill_population.simps) (auto split: sum.splits)
    obtain c1' g4 where mu1: "mutate s c1 g3 = (c1', g4)" by (cases "mutate s c1 g3")
    obtain c2' g5 where mu2: "mutate s c2 g4 = (c2', g5)" by (cases "mutate s c2 g4")
    from select_parent_member[OF p1] assms have "length p1 = L" by simp
    with crossover_lengths[OF c] have "length c1 = L" "length c2 = L" by simp_all
    with mutate_length[of s c1 g3] mutate_length[of s c2 g4] mu1 mu2
    have lc: "length c1' = L" "length c2' = L" by simp_all
    let ?np1 = "new_population @ [c1']"
    show ?thesis
    proof (cases "length ?np1 < population_size s")
      case more: True
      let ?np2 = "?np1 @ [c2']"
      have "fill_population s nf new_population g = fill_population s nf ?np2 g5"
        using True more p1 p2 c mu1 mu2 by (subst fill_population.simps) simp
      with less.prems(3) have r: "fill_population s nf ?np2 g5 = Inr (np, g')" by simp
      have "population_size s - length ?np2 < population_size s - length new_population"
        using True by simp
      moreover have "\<forall>p \<in> set ?np2. length p = L" using less.prems(1) lc by simp
      moreover have "length ?np2 \<le> population_size s" using more by simp
      ultimately show ?thesis using less.hyps[of ?np2 g5] r by blast
    next
      case last: False
      have "fill_population s nf new_population g = fill_population s nf ?np1 g4"
        using True last p1 p2 c mu1 by (subst fill_population.simps) simp
      with less.prems(3) have r: "fill_population s nf ?np1 g4 = Inr (np, g')" by simp
      have "population_size s - length ?np1 < population_size s - length new_population"
        using True by simp
      moreover have "\<forall>p \<in> set ?np1. length p = L" using less.prems(1) lc by simp
      moreover have "length ?np1 \<le> population_size s" using True by simp
      ultimately show ?thesis using less.hyps[of ?np1 g4] r by blast
    qed
  qed
qed

lemma evolve_preserves_invariant:
  assumes "length (population s) = population_size s"
    and "length fs = population_size s"
    and "\<forall>p \<in> set (population s). length p = genome_length s"
    and "evolve s fs g = Inr (s', np, n, g')"
  shows "length (population s') = population_size s'
     \<and> (\<forall>p \<in> set (population s'). length p = genome_length s')
     \<and> population_size s' = population_size s \<and> genome_length s' = genome_length s
     \<and> elite_size s' = elite_size s \<and> tournament_size s' = tournament_size s"
proof -
  from assms(4) obtain nf where nf: "normalize_fitness fs = Inr nf"
    by (auto simp: evolve_def split: sum.splits)
  let ?elite = "map (\<lambda>i. population s ! i) (elite_indices s fs)"
  have el: "map_result (py_index (population s)) (elite_indices s fs) = Inr ?elite"
    using assms(1,2) by (intro elite_genomes) simp
  from assms(4) nf el have f: "fill_population s nf ?elite g = Inr (np, g')"
    and s': "s' = s\<lparr>population := np, generation := generation s + 1\<rparr>"
    by (auto simp: evolve_def split: sum.splits)
  have "\<forall>p \<in> set ?elite. length p = genome_length s"
    using elite_indices_bound[of s fs] assms(1,2,3) by auto
  moreover have "length ?elite \<le> population_size s"
    using assms(2) by (simp add: elite_indices_def)
  ultimately have lens: "\<forall>p \<in> set np. length p = genome_length s"
    and ln: "length np = population_size s"
    using fill_population_result[OF assms(3) _ _ f] by blast+
  with s' show ?thesis by simp
qed


end
